theory Spec2Isabelle
  imports Main "HOL-Library.Sublist"
begin

section \<open>Python built-ins used by WMML.py\<close>

text \<open>
  Strings are \<open>char list\<close>, a character being a code point below 256. Every implicit raise of the source (a missing dict key, a list
  index out of range, a failed file read) is a value of \<open>py_error\<close>; a function that can
  raise returns \<open>py_error + 'a\<close> with \<open>Inl\<close> for the exception.
\<close>

datatype py_error = KeyError string | IndexError | OSError

text \<open>\<open>xs[i]\<close> for a non-negative index.\<close>

definition py_index :: "'a list \<Rightarrow> nat \<Rightarrow> py_error + 'a" where
  "py_index xs i = (if i < length xs then Inr (xs ! i) else Inl IndexError)"

text \<open>\<open>s.split(d)\<close> for a one-character separator: never the empty list.\<close>

fun py_split :: "char \<Rightarrow> string \<Rightarrow> string list" where
  "py_split d [] = [[]]"
| "py_split d (c # cs) =
     (if c = d then [] # py_split d cs
      else (case py_split d cs of
              [] \<Rightarrow> [[c]]
            | w # ws \<Rightarrow> (c # w) # ws))"

text \<open>\<open>sep.join(xs)\<close>.\<close>

fun py_join :: "string \<Rightarrow> string list \<Rightarrow> string" where
  "py_join s [] = []"
| "py_join s [x] = x"
| "py_join s (x # y # ys) = x @ s @ py_join s (y # ys)"

text \<open>
  \<open>s.replace(old, new)\<close>: the occurrences of \<open>old\<close> are found from the left and do not
  overlap; the text put in is not scanned again. With an empty \<open>old\<close> Python puts \<open>new\<close>
  before every character and at the end.
\<close>

function replace_scan :: "string \<Rightarrow> string \<Rightarrow> string \<Rightarrow> string" where
  "replace_scan old new [] = []"
| "replace_scan old new (c # cs) =
     (if old \<noteq> [] \<and> prefix old (c # cs)
      then new @ replace_scan old new (drop (length old) (c # cs))
      else c # replace_scan old new cs)"
  by pat_completeness auto
termination
  by (relation "measure (\<lambda>(old, new, s). length s)") (auto simp: neq_Nil_conv)

definition py_replace :: "string \<Rightarrow> string \<Rightarrow> string \<Rightarrow> string" where
  "py_replace old new s =
     (if old = [] then new @ concat (map (\<lambda>c. c # new) s) else replace_scan old new s)"

text \<open>\<open>s.endswith(t)\<close>.\<close>

definition py_endswith :: "string \<Rightarrow> string \<Rightarrow> bool" where
  "py_endswith s t = (length t \<le> length s \<and> drop (length s - length t) s = t)"

text \<open>
  \<open>s.strip()\<close> removes the whitespace at both ends. A character of this model is a
  code point below 256. Of these \<open>str.isspace\<close> accepts twelve: tab, line feed,
  vertical tab, form feed, carriage return, the four separators 0x1C to 0x1F, the
  space, the next-line control 0x85 and the no-break space 0xA0.
\<close>

definition py_isspace :: "char \<Rightarrow> bool" where
  "py_isspace c = (c \<in> set [CHR 0x09, CHR 0x0A, CHR 0x0B, CHR 0x0C, CHR 0x0D,
                               CHR 0x1C, CHR 0x1D, CHR 0x1E, CHR 0x1F, CHR 0x20,
                               CHR 0x85, CHR 0xA0])"

definition py_strip :: "string \<Rightarrow> string" where
  "py_strip s = rev (dropWhile py_isspace (rev (dropWhile py_isspace s)))"

text \<open>\<open>str(n)\<close> of an integer, as an f-string formats it.\<close>

fun str_nat :: "nat \<Rightarrow> string" where
  "str_nat n =
     (if n < 10 then [''0123456789'' ! n]
      else str_nat (n div 10) @ [''0123456789'' ! (n mod 10)])"

declare str_nat.simps [simp del]

definition py_str_int :: "int \<Rightarrow> string" where
  "py_str_int i = (if i < 0 then ''-'' @ str_nat (nat (- i)) else str_nat (nat i))"

section \<open>The platform: os, platform and pathlib\<close>

text \<open>
  The launcher reads \<open>os.sep\<close>, \<open>os.pathsep\<close> and \<open>platform.machine()\<close>, builds paths
  with \<open>pathlib.Path\<close> (the constructor, the \<open>/\<close> operator, \<open>str\<close>) and asks the file
  system whether a path exists. These belong to the interpreter and the machine, not to
  the repository, so the model takes them as one parameter: a record of the operations,
  over any type \<open>'p\<close> of path objects. The file system does not change during a call.
\<close>

record 'p platform =
  os_sep :: string
  os_pathsep :: string
  platform_machine :: string
  Path :: "string \<Rightarrow> 'p"
  path_str :: "'p \<Rightarrow> string"
  truediv :: "'p \<Rightarrow> string \<Rightarrow> 'p"
  path_exists :: "'p \<Rightarrow> bool"

section \<open>The version descriptor and the launch options\<close>

text \<open>
  The descriptor is the dict \<open>json.load\<close> returns. A key the source looks up is a field
  of option type, \<open>None\<close> when the dict lacks the key; the value under a key has the type
  the launcher's use of it requires (a string, a list of rules, a dict of classifiers).
\<close>

record os_constraint =
  os_name_key :: "string option"
  os_arch_key :: "string option"

record rule =
  rule_action :: "string option"
  rule_os :: "os_constraint option"

record library =
  lib_name :: "string option"
  lib_rules :: "rule list option"
  lib_natives :: "(string \<rightharpoonup> string) option"

text \<open>
  An element of \<open>arguments.game\<close> is a string or a conditional object; the value under
  \<open>libraries\<close> is a list or something else (the source asks \<open>isinstance\<close> of both).
\<close>

datatype game_arg = ArgStr string | ArgObject

datatype libraries_value = LibraryList "library list" | NotAList

record arguments =
  args_game :: "game_arg list option"

record version_json =
  vj_id :: "string option"
  vj_mainClass :: "string option"
  vj_assets :: "string option"
  vj_libraries :: "libraries_value option"
  vj_minecraftArguments :: "string option"
  vj_arguments :: "arguments option"

text \<open>
  The options dict: \<open>memory\<close> holds an integer or \<open>None\<close>, \<open>use_system_memory\<close> a
  boolean; each of the three keys may be missing.
\<close>

datatype memory_value = MemNone | MemInt int

record options =
  opt_java_path :: "string option"
  opt_memory :: "memory_value option"
  opt_use_system_memory :: "bool option"

section \<open>check\_library\_rules\<close>

text \<open>
  The \<open>for\<close> loop of \<open>check_library_rules\<close>, with the running value \<open>should_include\<close>
  as an argument; \<open>os_name\<close> and \<open>os_arch\<close> are the two locals set before the loop.
  \<open>rule['action']\<close> and \<open>rule['os']['name']\<close> raise \<open>KeyError\<close> on a missing key. A rule
  whose action is neither \<open>allow\<close> nor \<open>disallow\<close> matches no branch.
\<close>

fun rules_loop :: "string \<Rightarrow> string \<Rightarrow> bool \<Rightarrow> rule list \<Rightarrow> py_error + bool" where
  "rules_loop os_name os_arch should_include [] = Inr should_include"
| "rules_loop os_name os_arch should_include (r # rs) =
     (case rule_action r of
        None \<Rightarrow> Inl (KeyError ''action'')
      | Some act \<Rightarrow>
          if act = ''allow'' then
            (case rule_os r of
               None \<Rightarrow> rules_loop os_name os_arch True rs
             | Some os \<Rightarrow>
                 (case os_name_key os of
                    None \<Rightarrow> Inl (KeyError ''name'')
                  | Some n \<Rightarrow>
                      if n = os_name then
                        (case os_arch_key os of
                           Some a \<Rightarrow> rules_loop os_name os_arch (a = os_arch) rs
                         | None \<Rightarrow> rules_loop os_name os_arch True rs)
                      else rules_loop os_name os_arch False rs))
          else if act = ''disallow'' then
            (case rule_os r of
               None \<Rightarrow> rules_loop os_name os_arch False rs
             | Some os \<Rightarrow>
                 (case os_name_key os of
                    None \<Rightarrow> Inl (KeyError ''name'')
                  | Some n \<Rightarrow>
                      if n = os_name then rules_loop os_name os_arch False rs
                      else rules_loop os_name os_arch should_include rs))
          else rules_loop os_name os_arch should_include rs)"

text \<open>The two locals \<open>os_name\<close> and \<open>os_arch\<close> of \<open>check_library_rules\<close>.\<close>

definition os_name :: string where
  "os_name = ''windows''"

definition os_arch :: "'p platform \<Rightarrow> string" where
  "os_arch env = (if py_endswith (platform_machine env) ''64'' then ''x86_64'' else ''x86'')"

definition check_library_rules :: "'p platform \<Rightarrow> library \<Rightarrow> py_error + bool" where
  "check_library_rules env lib =
     (case lib_rules lib of
        None \<Rightarrow> Inr True
      | Some rules \<Rightarrow>
          if rules = [] then Inr True
          else rules_loop os_name (os_arch env) True rules)"

section \<open>get\_library\_path\<close>

text \<open>
  The body of the \<open>try\<close> block. \<open>lib['name']\<close> raises \<open>KeyError\<close> on a missing key,
  \<open>parts[1]\<close> and \<open>parts[2]\<close> raise \<open>IndexError\<close> on a short list.
\<close>

definition get_library_path_try ::
  "'p platform \<Rightarrow> 'p \<Rightarrow> library \<Rightarrow> py_error + string option" where
  "get_library_path_try env mc_path lib =
     (case lib_name lib of
        None \<Rightarrow> Inl (KeyError ''name'')
      | Some n \<Rightarrow>
          let parts = py_split CHR '':'' n in
          case py_index parts 0 of
            Inl e \<Rightarrow> Inl e
          | Inr p0 \<Rightarrow>
              let group_path = py_replace ''.'' (os_sep env) p0 in
              case py_index parts 1 of
                Inl e \<Rightarrow> Inl e
              | Inr artifact_id \<Rightarrow>
                  case py_index parts 2 of
                    Inl e \<Rightarrow> Inl e
                  | Inr version \<Rightarrow>
                      let base_path =
                            truediv env (truediv env (truediv env (truediv env mc_path
                              ''libraries'') group_path) artifact_id) version;
                          base_file = artifact_id @ ''-'' @ version;
                          jar_path = truediv env base_path (base_file @ ''.jar'');
                          regular = (if path_exists env jar_path
                                     then Some (path_str env jar_path) else None)
                      in
                        case lib_natives lib of
                          None \<Rightarrow> Inr regular
                        | Some natives \<Rightarrow>
                            (case natives ''windows'' of
                               None \<Rightarrow> Inr regular
                             | Some c \<Rightarrow>
                                 let classifier =
                                       py_replace ''${arch}''
                                         (if py_endswith (platform_machine env) ''64''
                                          then ''64'' else ''32'') c;
                                     native_path =
                                       truediv env base_path
                                         (base_file @ ''-'' @ classifier @ ''.jar'')
                                 in if path_exists env native_path
                                    then Inr (Some (path_str env native_path))
                                    else Inr regular))"

text \<open>
  The \<open>except Exception\<close> clause prints the error and returns \<open>None\<close>: no exception
  leaves \<open>get_library_path\<close>.
\<close>

definition get_library_path :: "'p platform \<Rightarrow> 'p \<Rightarrow> library \<Rightarrow> string option" where
  "get_library_path env mc_path lib =
     (case get_library_path_try env mc_path lib of
        Inl error \<Rightarrow> None
      | Inr r \<Rightarrow> r)"

section \<open>build\_libraries\_path\<close>

text \<open>
  The \<open>for\<close> loop over the libraries, with the list \<open>result\<close> as an argument. An
  exception of \<open>check_library_rules\<close> is not caught. \<open>if lib_path\<close> is false for \<open>None\<close>
  and for the empty string.
\<close>

fun libraries_loop ::
  "'p platform \<Rightarrow> 'p \<Rightarrow> string list \<Rightarrow> library list \<Rightarrow> py_error + string list" where
  "libraries_loop env mc_path result [] = Inr result"
| "libraries_loop env mc_path result (lib # libs) =
     (case check_library_rules env lib of
        Inl e \<Rightarrow> Inl e
      | Inr ok \<Rightarrow>
          if \<not> ok then libraries_loop env mc_path result libs
          else
            (case get_library_path env mc_path lib of
               None \<Rightarrow> libraries_loop env mc_path result libs
             | Some lib_path \<Rightarrow>
                 if lib_path \<noteq> [] then libraries_loop env mc_path (result @ [lib_path]) libs
                 else libraries_loop env mc_path result libs))"

definition build_libraries_path :: "'p platform \<Rightarrow> 'p \<Rightarrow> version_json \<Rightarrow> py_error + string" where
  "build_libraries_path env mc_path version_json =
     (case vj_id version_json of
        None \<Rightarrow> Inl (KeyError ''id'')
      | Some i \<Rightarrow>
          let result = [path_str env (truediv env (truediv env (truediv env mc_path
                          ''versions'') i) (i @ ''.jar''))]
          in
            case vj_libraries version_json of
              Some (LibraryList libs) \<Rightarrow>
                (case libraries_loop env mc_path result libs of
                   Inl e \<Rightarrow> Inl e
                 | Inr result' \<Rightarrow> Inr (py_join (os_pathsep env) result'))
            | _ \<Rightarrow> Inr (py_join (os_pathsep env) result))"

section \<open>build\_game\_arguments\<close>

text \<open>The dict \<open>replacements\<close>, in its insertion order, which is the order of iteration.\<close>

definition replacements ::
  "'p platform \<Rightarrow> 'p \<Rightarrow> string \<Rightarrow> string \<Rightarrow> version_json \<Rightarrow> (string \<times> string) list" where
  \<open>replacements env mc_path version_name player_name version_json =
     [(''${auth_player_name}'', player_name),
      (''${version_name}'', version_name),
      (''${game_directory}'', path_str env mc_path),
      (''${assets_root}'', path_str env (truediv env mc_path ''assets'')),
      (''${assets_index_name}'', (case vj_assets version_json of None \<Rightarrow> [] | Some a \<Rightarrow> a)),
      (''${auth_uuid}'', ''00000000-0000-0000-0000-000000000000''),
      (''${auth_access_token}'', ''00000000000000000000000000000000''),
      (''${user_type}'', ''legacy''),
      (''${version_type}'', ''"WMML 0.1.26"'')]\<close>

text \<open>The list \<open>args\<close> before it is joined.\<close>

definition game_tokens :: "version_json \<Rightarrow> string list" where
  "game_tokens version_json =
     (case vj_minecraftArguments version_json of
        None \<Rightarrow> []
      | Some m \<Rightarrow> py_split CHR '' '' m)
     @
     (case vj_arguments version_json of
        None \<Rightarrow> []
      | Some a \<Rightarrow>
          (case args_game a of
             None \<Rightarrow> []
           | Some game \<Rightarrow> concat (map (\<lambda>arg. case arg of ArgStr t \<Rightarrow> [t] | ArgObject \<Rightarrow> []) game)))"

definition build_game_arguments ::
  "'p platform \<Rightarrow> 'p \<Rightarrow> string \<Rightarrow> string \<Rightarrow> version_json \<Rightarrow> string" where
  "build_game_arguments env mc_path version_name player_name version_json =
     (let args_str = py_join '' '' (game_tokens version_json)
      in py_strip
           (foldl (\<lambda>args_str (placeholder, v). py_replace placeholder v args_str) args_str
              (replacements env mc_path version_name player_name version_json)))"

section \<open>build\_java\_command\<close>

definition common_args :: "'p platform \<Rightarrow> 'p \<Rightarrow> string \<Rightarrow> string list" where
  "common_args env mc_path version_name =
     [''-Dfile.encoding=GB18030'',
      ''-Dsun.stdout.encoding=GB18030'',
      ''-Dsun.stderr.encoding=GB18030'',
      ''-Djava.rmi.server.useCodebaseOnly=true'',
      ''-Dcom.sun.jndi.rmi.object.trustURLCodebase=false'',
      ''-Dcom.sun.jndi.cosnaming.object.trustURLCodebase=false'',
      ''-Dlog4j2.formatMsgNoLookups=true'',
      ''-Dlog4j.configurationFile='' @ path_str env (truediv env (truediv env
          (truediv env mc_path ''versions'') version_name) ''log4j2.xml''),
      ''-Dminecraft.client.jar='' @ path_str env (truediv env (truediv env
          (truediv env mc_path ''versions'') version_name) (version_name @ ''.jar'')),
      ''-XX:+UnlockExperimentalVMOptions'',
      ''-XX:+UseG1GC'',
      ''-XX:G1NewSizePercent=20'',
      ''-XX:G1ReservePercent=20'',
      ''-XX:MaxGCPauseMillis=50'',
      ''-XX:G1HeapRegionSize=32m'',
      ''-XX:-UseAdaptiveSizePolicy'',
      ''-XX:-OmitStackTraceInFastThrow'',
      ''-XX:-DontCompileHugeMethods'',
      ''-Dfml.ignoreInvalidMinecraftCertificates=true'',
      ''-Dfml.ignorePatchDiscrepancies=true'',
      ''-XX:HeapDumpPath=MojangTricksIntelDriversForPerformance_javaw.exe_minecraft.exe.heapdump'',
      ''-Djava.library.path='' @ path_str env (truediv env (truediv env
          (truediv env mc_path ''versions'') version_name) ''natives-windows-x86_64''),
      ''-Djna.tmpdir='' @ path_str env (truediv env (truediv env
          (truediv env mc_path ''versions'') version_name) ''natives-windows-x86_64''),
      ''-Dorg.lwjgl.system.SharedLibraryExtractPath='' @ path_str env (truediv env (truediv env
          (truediv env mc_path ''versions'') version_name) ''natives-windows-x86_64''),
      ''-Dio.netty.native.workdir='' @ path_str env (truediv env (truediv env
          (truediv env mc_path ''versions'') version_name) ''natives-windows-x86_64''),
      ''-Dminecraft.launcher.brand=WMML'',
      ''-Dminecraft.launcher.version=0.1.26'']"

text \<open>
  The truth value of \<open>memory\<close> in \<open>if not use_system_memory and memory\<close>: \<open>None\<close> and
  \<open>0\<close> are false. \<open>memory_text\<close> is what the f-string puts for \<open>{memory}\<close>.
\<close>

definition memory_truthy :: "memory_value \<Rightarrow> bool" where
  "memory_truthy m = (case m of MemNone \<Rightarrow> False | MemInt i \<Rightarrow> i \<noteq> 0)"

definition memory_text :: "memory_value \<Rightarrow> string" where
  "memory_text m = (case m of MemNone \<Rightarrow> ''None'' | MemInt i \<Rightarrow> py_str_int i)"

definition build_java_command ::
  "'p platform \<Rightarrow> 'p \<Rightarrow> string \<Rightarrow> string \<Rightarrow> string \<Rightarrow> string \<Rightarrow> options
     \<Rightarrow> py_error + string list" where
  "build_java_command env mc_path version_name main_class libraries game_args opts =
     (case opt_java_path opts of
        None \<Rightarrow> Inl (KeyError ''java_path'')
      | Some java_path \<Rightarrow>
          let memory = (case opt_memory opts of None \<Rightarrow> MemInt 4096 | Some m \<Rightarrow> m);
              use_system_memory =
                (case opt_use_system_memory opts of None \<Rightarrow> False | Some u \<Rightarrow> u);
              command = [java_path];
              command =
                (if \<not> use_system_memory \<and> memory_truthy memory
                 then command @ [''-Xmx'' @ memory_text memory @ ''M'',
                                 ''-Xms'' @ memory_text memory @ ''M'']
                 else command);
              command = command @ common_args env mc_path version_name;
              command = command @ [''-cp'', libraries];
              command = command @ [main_class];
              command = command @ py_split CHR '' '' game_args
          in Inr command)"

section \<open>launch\_minecraft\<close>

text \<open>Lines 22 to 25: the root as the launcher uses it from there on.\<close>

definition normalize_mc_path :: "'p platform \<Rightarrow> string \<Rightarrow> 'p" where
  "normalize_mc_path env mc_path =
     (let p = Path env mc_path
      in if \<not> py_endswith (path_str env p) (os_sep env)
         then Path env (path_str env p @ os_sep env)
         else p)"

text \<open>
  \<open>launch_minecraft\<close> up to the command it hands to \<open>subprocess.Popen\<close>. Opening and
  parsing the descriptor is the argument \<open>load\<close>, from the path to the descriptor or
  the error raised. The \<open>except\<close> clause prints the error and raises it again.
\<close>

definition launch_minecraft ::
  "'p platform \<Rightarrow> ('p \<Rightarrow> py_error + version_json) \<Rightarrow> string \<Rightarrow> string \<Rightarrow> string \<Rightarrow> options
     \<Rightarrow> py_error + string list" where
  "launch_minecraft env load mc_path0 version_name player_name opts =
     (let mc_path = normalize_mc_path env mc_path0;
          version_json_path =
            truediv env (truediv env (truediv env mc_path ''versions'') version_name)
              (version_name @ ''.json'')
      in case load version_json_path of
           Inl e \<Rightarrow> Inl e
         | Inr version_json \<Rightarrow>
             (case vj_mainClass version_json of
                None \<Rightarrow> Inl (KeyError ''mainClass'')
              | Some main_class \<Rightarrow>
                  (case build_libraries_path env mc_path version_json of
                     Inl e \<Rightarrow> Inl e
                   | Inr libraries \<Rightarrow>
                       let game_args =
                             build_game_arguments env mc_path version_name player_name
                               version_json
                       in build_java_command env mc_path version_name main_class libraries
                            game_args opts)))"

section \<open>pathlib on a POSIX system\<close>

text \<open>
  One platform to run the launcher on: \<open>PurePosixPath\<close> as pathlib parses, prints and
  joins it. A path is its root (empty, one slash, or two for a path that starts with
  exactly two) and its components; the empty ones and the dots are dropped, so no
  printed path ends with a slash but the root itself. Joining an absolute segment
  replaces the path. The file system is the list of the paths that exist.
\<close>

record posix_path =
  pp_root :: string
  pp_tail :: "string list"

definition posix_root :: "string \<Rightarrow> string" where
  "posix_root s =
     (case s of
        [] \<Rightarrow> []
      | a # t \<Rightarrow>
          if a \<noteq> CHR ''/'' then []
          else (case t of
                  [] \<Rightarrow> ''/''
                | b # u \<Rightarrow>
                    if b \<noteq> CHR ''/'' then ''/''
                    else (case u of
                            [] \<Rightarrow> ''//''
                          | c # v \<Rightarrow> if c = CHR ''/'' then ''/'' else ''//'')))"

definition posix_parse :: "string \<Rightarrow> posix_path" where
  "posix_parse s =
     \<lparr>pp_root = posix_root s,
      pp_tail = filter (\<lambda>x. x \<noteq> [] \<and> x \<noteq> ''.'') (py_split CHR ''/'' s)\<rparr>"

definition posix_str :: "posix_path \<Rightarrow> string" where
  "posix_str p =
     (if pp_root p = [] \<and> pp_tail p = [] then ''.''
      else pp_root p @ py_join ''/'' (pp_tail p))"

definition posix_truediv :: "posix_path \<Rightarrow> string \<Rightarrow> posix_path" where
  "posix_truediv p s =
     (let q = posix_parse s
      in if pp_root q \<noteq> [] then q
         else \<lparr>pp_root = pp_root p, pp_tail = pp_tail p @ pp_tail q\<rparr>)"

definition posix_is_absolute :: "posix_path \<Rightarrow> bool" where
  "posix_is_absolute p = (pp_root p \<noteq> [])"

definition posix_platform :: "string \<Rightarrow> string list \<Rightarrow> posix_path platform" where
  "posix_platform machine files =
     \<lparr>os_sep = ''/'',
      os_pathsep = '':'',
      platform_machine = machine,
      Path = posix_parse,
      path_str = posix_str,
      truediv = posix_truediv,
      path_exists = (\<lambda>p. posix_str p \<in> set files)\<rparr>"

section \<open>The resolution of a library path as the specification words it\<close>

text \<open>
  Section 4.2 of the specification, for a coordinate split into group \<open>g\<close>, artifact
  \<open>a\<close> and version \<open>v\<close>: the base directory, the classifier declared for the current
  platform with the architecture placeholder substituted, the native jar first and the
  plain jar second, each only if it exists.
\<close>

definition spec_arch_token :: "'p platform \<Rightarrow> string" where
  "spec_arch_token env = (if py_endswith (platform_machine env) ''64'' then ''64'' else ''32'')"

definition spec_native_classifier :: "'p platform \<Rightarrow> library \<Rightarrow> string option" where
  "spec_native_classifier env lib =
     (case lib_natives lib of
        None \<Rightarrow> None
      | Some natives \<Rightarrow>
          map_option (py_replace ''${arch}'' (spec_arch_token env)) (natives ''windows''))"

definition spec_base_dir :: "'p platform \<Rightarrow> 'p \<Rightarrow> string \<Rightarrow> string \<Rightarrow> string \<Rightarrow> 'p" where
  "spec_base_dir env root g a v =
     truediv env (truediv env (truediv env (truediv env root ''libraries'')
       (py_replace ''.'' (os_sep env) g)) a) v"

definition spec_plain_jar :: "'p platform \<Rightarrow> 'p \<Rightarrow> string \<Rightarrow> string \<Rightarrow> string \<Rightarrow> string option" where
  "spec_plain_jar env root g a v =
     (let plain = truediv env (spec_base_dir env root g a v) (a @ ''-'' @ v @ ''.jar'')
      in if path_exists env plain then Some (path_str env plain) else None)"

definition spec_resolve_path ::
  "'p platform \<Rightarrow> 'p \<Rightarrow> library \<Rightarrow> string \<Rightarrow> string \<Rightarrow> string \<Rightarrow> string option" where
  "spec_resolve_path env root lib g a v =
     (case spec_native_classifier env lib of
        None \<Rightarrow> spec_plain_jar env root g a v
      | Some c \<Rightarrow>
          let native = truediv env (spec_base_dir env root g a v)
                         (a @ ''-'' @ v @ ''-'' @ c @ ''.jar'')
          in if path_exists env native then Some (path_str env native)
             else spec_plain_jar env root g a v)"

section \<open>The classpath as the specification words it\<close>

text \<open>
  Section 4.3 of the specification: the version's own jar, then, in the order of the
  descriptor, the resolved path of every library the rule evaluator accepts and the
  resolver finds; a library listed twice is kept twice. A descriptor without a list of
  libraries has none.
\<close>

definition spec_version_jar :: "'p platform \<Rightarrow> 'p \<Rightarrow> string \<Rightarrow> string" where
  "spec_version_jar env root i =
     path_str env (truediv env (truediv env (truediv env root ''versions'') i) (i @ ''.jar''))"

definition spec_libraries :: "version_json \<Rightarrow> library list" where
  "spec_libraries version_json =
     (case vj_libraries version_json of
        Some (LibraryList libs) \<Rightarrow> libs
      | _ \<Rightarrow> [])"

definition spec_accepted_paths :: "'p platform \<Rightarrow> 'p \<Rightarrow> library list \<Rightarrow> string list" where
  "spec_accepted_paths env root libs =
     concat (map (\<lambda>lib. if check_library_rules env lib = Inr True
                         then (case get_library_path env root lib of
                                 None \<Rightarrow> []
                               | Some p \<Rightarrow> [p])
                         else []) libs)"

section \<open>The substitution of placeholders as the specification words it\<close>

text \<open>
  Section 4.4 of the specification, for a template cut into segments: a literal text
  without the character \<open>$\<close>, or a placeholder, which is \<open>$\<close> followed by text without
  \<open>$\<close>. A placeholder of the table \<open>keys\<close> is recognized; an unrecognized one must not
  overlap a recognized one where it starts. The substitution puts the table's value for
  every recognized placeholder and leaves the rest verbatim.
\<close>

datatype segment = Literal string | Placeholder string

definition spec_template_text :: "segment list \<Rightarrow> string" where
  "spec_template_text segs =
     concat (map (\<lambda>seg. case seg of Literal t \<Rightarrow> t | Placeholder h \<Rightarrow> h) segs)"

definition spec_substitute :: "(string \<times> string) list \<Rightarrow> segment list \<Rightarrow> string" where
  "spec_substitute table segs =
     concat (map (\<lambda>seg. case seg of
                           Literal t \<Rightarrow> t
                         | Placeholder h \<Rightarrow> (case map_of table h of None \<Rightarrow> h | Some v \<Rightarrow> v))
               segs)"

fun spec_wf_segment :: "string list \<Rightarrow> segment \<Rightarrow> bool" where
  "spec_wf_segment keys (Literal t) = (CHR ''$'' \<notin> set t)"
| "spec_wf_segment keys (Placeholder h) =
     (h \<noteq> [] \<and> hd h = CHR ''$'' \<and> CHR ''$'' \<notin> set (tl h) \<and>
      list_all (\<lambda>k. h = k \<or> (\<not> prefix k h \<and> \<not> prefix h k)) keys)"

text \<open>One pass of the substitution: the placeholder \<open>k\<close> becomes the literal \<open>v\<close>.\<close>

definition spec_substitute_one :: "string \<Rightarrow> string \<Rightarrow> segment \<Rightarrow> segment" where
  "spec_substitute_one k v seg = (if seg = Placeholder k then Literal v else seg)"

section \<open>Properties of the rule evaluator\<close>

lemma rules_loop_append:
  "rules_loop n a b (xs @ ys) =
     (case rules_loop n a b xs of Inl e \<Rightarrow> Inl e | Inr b' \<Rightarrow> rules_loop n a b' ys)"
  by (induction xs arbitrary: b) (auto split: option.splits)

lemma rules_loop_disallow_other:
  assumes "rule_action r = Some ''disallow''" and "rule_os r = Some os"
    and "os_name_key os = Some m" and "m \<noteq> n"
  shows "rules_loop n a b (r # rs) = rules_loop n a b rs"
  using assms by simp

lemma rules_loop_allow_overrides:
  assumes "rule_action r = Some ''allow''"
  shows "rules_loop n a b [r] = rules_loop n a b' [r]"
  using assms by (simp split: option.splits)

lemma rules_loop_disallow_overrides:
  assumes "rule_action r = Some ''disallow''"
    and "rule_os r = None \<or> (\<exists>os. rule_os r = Some os \<and> os_name_key os = Some n)"
  shows "rules_loop n a b [r] = Inr False"
  using assms by auto

lemma check_library_rules_loop:
  "lib_rules lib = Some rules \<Longrightarrow>
     check_library_rules env lib = rules_loop os_name (os_arch env) True rules"
  by (simp add: check_library_rules_def)

text \<open>
  C2: rule evaluation is last-match-wins. The decision for the rules \<open>rs @ [r]\<close> is the
  last rule \<open>r\<close> applied to the decision \<open>b\<close> for the earlier rules \<open>rs\<close> (the loop is a
  fold from the left, and \<open>b\<close> is \<open>True\<close> when there is no earlier rule). A last rule
  that allows decides alone, whatever the earlier rules said; so does a last rule that
  disallows with no OS constraint or with the current OS name, and it decides \<open>False\<close>.
  For the rules \<open>[allow(no os), disallow(os = windows, no arch)]\<close> the decision is
  \<open>False\<close>.
\<close>

theorem check_library_rules_last_match_wins:
  assumes "lib_rules lib = Some (rs @ [r])"
    and "check_library_rules env (lib\<lparr>lib_rules := Some rs\<rparr>) = Inr b"
  shows "check_library_rules env lib = rules_loop os_name (os_arch env) b [r]
       \<and> check_library_rules env (lib\<lparr>lib_rules := Some []\<rparr>) = Inr True
       \<and> (rule_action r = Some ''allow'' \<longrightarrow>
            check_library_rules env lib = rules_loop os_name (os_arch env) True [r])
       \<and> (rule_action r = Some ''disallow'' \<and>
            (rule_os r = None \<or> (\<exists>os. rule_os r = Some os \<and> os_name_key os = Some os_name)) \<longrightarrow>
            check_library_rules env lib = Inr False)
       \<and> check_library_rules env
            (lib\<lparr>lib_rules := Some
               [\<lparr>rule_action = Some ''allow'', rule_os = None\<rparr>,
                \<lparr>rule_action = Some ''disallow'',
                 rule_os = Some \<lparr>os_name_key = Some os_name, os_arch_key = None\<rparr>\<rparr>]\<rparr>)
           = Inr False"
proof -
  have prior: "rules_loop os_name (os_arch env) True rs = Inr b"
    using assms(2) check_library_rules_loop [of "lib\<lparr>lib_rules := Some rs\<rparr>" rs env] by simp
  have step: "check_library_rules env lib = rules_loop os_name (os_arch env) b [r]"
    using assms(1) prior by (simp add: check_library_rules_loop rules_loop_append)
  have none: "check_library_rules env (lib\<lparr>lib_rules := Some []\<rparr>) = Inr True"
    by (simp add: check_library_rules_def)
  have allow: "rule_action r = Some ''allow'' \<longrightarrow>
      check_library_rules env lib = rules_loop os_name (os_arch env) True [r]"
    using step rules_loop_allow_overrides [of r os_name "os_arch env" b True] by simp
  have disallow: "rule_action r = Some ''disallow'' \<and>
      (rule_os r = None \<or> (\<exists>os. rule_os r = Some os \<and> os_name_key os = Some os_name)) \<longrightarrow>
      check_library_rules env lib = Inr False"
    using step rules_loop_disallow_overrides [of r os_name "os_arch env" b] by simp
  have example: "check_library_rules env
      (lib\<lparr>lib_rules := Some
         [\<lparr>rule_action = Some ''allow'', rule_os = None\<rparr>,
          \<lparr>rule_action = Some ''disallow'',
           rule_os = Some \<lparr>os_name_key = Some os_name, os_arch_key = None\<rparr>\<rparr>]\<rparr>)
      = Inr False"
    by (simp add: check_library_rules_def)
  from step none allow disallow example show ?thesis by blast
qed

theorem check_library_rules_last_match_wins_witness:
  "check_library_rules (posix_platform ''AMD64'' [])
     \<lparr>lib_name = Some ''org.example:foo:1.0'',
      lib_rules = Some [\<lparr>rule_action = Some ''disallow'', rule_os = None\<rparr>,
                        \<lparr>rule_action = Some ''allow'', rule_os = None\<rparr>],
      lib_natives = None\<rparr> = Inr True
   \<and> check_library_rules (posix_platform ''AMD64'' [])
     \<lparr>lib_name = Some ''org.example:foo:1.0'',
      lib_rules = Some [\<lparr>rule_action = Some ''allow'', rule_os = None\<rparr>,
                        \<lparr>rule_action = Some ''disallow'',
                         rule_os = Some \<lparr>os_name_key = Some ''windows'',
                                         os_arch_key = None\<rparr>\<rparr>],
      lib_natives = None\<rparr> = Inr False"
proof
  let ?env = "posix_platform ''AMD64'' []"
  let ?allow = "\<lparr>rule_action = Some ''allow'', rule_os = None\<rparr>"
  let ?deny = "\<lparr>rule_action = Some ''disallow'', rule_os = None\<rparr>"
  let ?deny_win = "\<lparr>rule_action = Some ''disallow'',
                    rule_os = Some \<lparr>os_name_key = Some ''windows'', os_arch_key = None\<rparr>\<rparr>"
  let ?lib1 = "\<lparr>lib_name = Some ''org.example:foo:1.0'',
                lib_rules = Some ([?deny] @ [?allow]), lib_natives = None\<rparr>"
  let ?lib2 = "\<lparr>lib_name = Some ''org.example:foo:1.0'',
                lib_rules = Some ([?allow] @ [?deny_win]), lib_natives = None\<rparr>"
  have p1: "check_library_rules ?env (?lib1\<lparr>lib_rules := Some [?deny]\<rparr>) = Inr False"
    by (simp add: check_library_rules_def)
  have p2: "check_library_rules ?env (?lib2\<lparr>lib_rules := Some [?allow]\<rparr>) = Inr True"
    by (simp add: check_library_rules_def)
  show "check_library_rules ?env
     \<lparr>lib_name = Some ''org.example:foo:1.0'',
      lib_rules = Some [?deny, ?allow], lib_natives = None\<rparr> = Inr True"
    using check_library_rules_last_match_wins [of ?lib1 "[?deny]" ?allow ?env False, OF _ p1]
    by simp
  show "check_library_rules ?env
     \<lparr>lib_name = Some ''org.example:foo:1.0'',
      lib_rules = Some [?allow, ?deny_win], lib_natives = None\<rparr> = Inr False"
    using check_library_rules_last_match_wins [of ?lib2 "[?allow]" ?deny_win ?env True, OF _ p2]
    by (simp add: os_name_def)
qed

text \<open>
  C3: a disallow rule whose OS constraint names another OS than the current one leaves
  the running decision as it was, for every prior value \<open>b\<close> and wherever the rule
  stands in the list: the decision with the rule is the decision without it. Alone, the
  rule gives the initial value \<open>True\<close>.
\<close>

theorem disallow_other_os_pass_through:
  assumes "rule_action r = Some ''disallow''"
    and "rule_os r = Some os"
    and "os_name_key os = Some n"
    and "n \<noteq> os_name"
  shows "rules_loop os_name (os_arch env) b (r # rs) = rules_loop os_name (os_arch env) b rs
       \<and> check_library_rules env (lib\<lparr>lib_rules := Some (pre @ r # post)\<rparr>)
           = check_library_rules env (lib\<lparr>lib_rules := Some (pre @ post)\<rparr>)
       \<and> check_library_rules env (lib\<lparr>lib_rules := Some [r]\<rparr>) = Inr True"
proof -
  have skip: "rules_loop os_name (os_arch env) c (r # xs) = rules_loop os_name (os_arch env) c xs"
    for c xs
    using assms by (rule rules_loop_disallow_other)
  have anywhere: "rules_loop os_name (os_arch env) True (pre @ r # post)
      = rules_loop os_name (os_arch env) True (pre @ post)"
    by (simp add: rules_loop_append skip del: rules_loop.simps split: sum.splits)
  have "check_library_rules env (lib\<lparr>lib_rules := Some (pre @ r # post)\<rparr>)
      = check_library_rules env (lib\<lparr>lib_rules := Some (pre @ post)\<rparr>)"
    using anywhere
      check_library_rules_loop [of "lib\<lparr>lib_rules := Some (pre @ r # post)\<rparr>" "pre @ r # post" env]
      check_library_rules_loop [of "lib\<lparr>lib_rules := Some (pre @ post)\<rparr>" "pre @ post" env]
    by simp
  moreover have "check_library_rules env (lib\<lparr>lib_rules := Some [r]\<rparr>) = Inr True"
    using skip [of True "[]"] by (simp add: check_library_rules_def)
  ultimately show ?thesis using skip by blast
qed

theorem disallow_other_os_pass_through_witness:
  "Some ''linux'' = Some ''linux'' \<and> ''linux'' \<noteq> os_name
   \<and> rules_loop os_name (os_arch (posix_platform ''AMD64'' [])) False
       [\<lparr>rule_action = Some ''disallow'',
         rule_os = Some \<lparr>os_name_key = Some ''linux'', os_arch_key = None\<rparr>\<rparr>] = Inr False
   \<and> check_library_rules (posix_platform ''AMD64'' [])
       \<lparr>lib_name = Some ''org.example:foo:1.0'',
        lib_rules = Some [\<lparr>rule_action = Some ''disallow'',
                           rule_os = Some \<lparr>os_name_key = Some ''linux'',
                                           os_arch_key = None\<rparr>\<rparr>],
        lib_natives = None\<rparr> = Inr True"
proof -
  let ?os = "\<lparr>os_name_key = Some ''linux'', os_arch_key = None\<rparr>"
  let ?r = "\<lparr>rule_action = Some ''disallow'', rule_os = Some ?os\<rparr>"
  have other: "''linux'' \<noteq> os_name" by (simp add: os_name_def)
  show ?thesis
    using other
      disallow_other_os_pass_through [where r = ?r and os = ?os and n = "''linux''"
        and env = "posix_platform ''AMD64'' []" and b = False and rs = "[]"
        and lib = "\<lparr>lib_name = Some ''org.example:foo:1.0'', lib_rules = None,
                     lib_natives = None\<rparr>"
        and pre = "[]" and post = "[]"]
    by (simp add: check_library_rules_def)
qed

section \<open>Properties of the path resolver\<close>

lemma get_library_path_try_three:
  assumes "lib_name lib = Some n" and "py_split CHR '':'' n = [g, a, v]"
  shows "get_library_path_try env mc_path lib = Inr (spec_resolve_path env mc_path lib g a v)"
  using assms
  by (simp add: get_library_path_try_def py_index_def spec_resolve_path_def spec_base_dir_def
      spec_plain_jar_def spec_native_classifier_def spec_arch_token_def Let_def
      split: option.splits)

lemma get_library_path_try_short:
  assumes "lib_name lib = Some n" and "length (py_split CHR '':'' n) < 3"
  shows "get_library_path_try env mc_path lib = Inl IndexError"
  using assms
  by (auto simp add: get_library_path_try_def py_index_def Let_def split: sum.splits)

text \<open>
  C1, as the code has it: a coordinate with fewer than three parts makes \<open>parts[1]\<close> or
  \<open>parts[2]\<close> raise \<open>IndexError\<close> inside the \<open>try\<close> block; the \<open>except\<close> clause
  catches it, and \<open>get_library_path\<close> returns \<open>None\<close>, the value it also returns for a
  library that is not found.
\<close>

theorem get_library_path_malformed_none:
  assumes "lib_name lib = Some n" and "length (py_split CHR '':'' n) < 3"
  shows "get_library_path_try env mc_path lib = Inl IndexError
       \<and> get_library_path env mc_path lib = None"
  using get_library_path_try_short [OF assms, of env mc_path]
  by (simp add: get_library_path_def)

theorem get_library_path_malformed_none_witness:
  "length (py_split CHR '':'' ''org.example:foo'') < 3
   \<and> get_library_path (posix_platform ''AMD64'' []) (posix_parse ''/home/u/.minecraft'')
       \<lparr>lib_name = Some ''org.example:foo'', lib_rules = None, lib_natives = None\<rparr> = None"
proof -
  have short: "length (py_split CHR '':'' ''org.example:foo'') < 3" by simp
  show ?thesis
    using short
      get_library_path_malformed_none [where n = "''org.example:foo''"
        and lib = "\<lparr>lib_name = Some ''org.example:foo'', lib_rules = None,
                     lib_natives = None\<rparr>"
        and env = "posix_platform ''AMD64'' []"
        and mc_path = "posix_parse ''/home/u/.minecraft''", OF _ short]
    by simp
qed

text \<open>
  C1, as the specification states it, fails: for the coordinate \<open>org.example:foo\<close> the
  \<open>try\<close> block raises, and \<open>get_library_path\<close> returns \<open>None\<close> instead of an error.
\<close>

theorem get_library_path_malformed_counterexample:
  "get_library_path_try (posix_platform ''AMD64'' []) (posix_parse ''.minecraft'')
     \<lparr>lib_name = Some ''org.example:foo'', lib_rules = None, lib_natives = None\<rparr>
     = Inl IndexError
   \<and> get_library_path (posix_platform ''AMD64'' []) (posix_parse ''.minecraft'')
     \<lparr>lib_name = Some ''org.example:foo'', lib_rules = None, lib_natives = None\<rparr>
     = None"
  by (simp add: get_library_path_def get_library_path_try_def py_index_def)

text \<open>
  C4: for a coordinate of exactly three parts \<open>g:a:v\<close>, \<open>get_library_path\<close> is the
  resolution of the specification: the native jar
  \<open>base/a-v-classifier.jar\<close> if the entry declares a classifier for \<open>windows\<close> and the
  file exists, otherwise the plain jar \<open>base/a-v.jar\<close> if that exists, otherwise
  \<open>None\<close>. The result \<open>None\<close> is not an error: the loop of \<open>build_libraries_path\<close>
  goes on to the next library with its result unchanged.
\<close>

theorem get_library_path_resolution:
  assumes "lib_name lib = Some n" and "py_split CHR '':'' n = [g, a, v]"
  shows "get_library_path env mc_path lib = spec_resolve_path env mc_path lib g a v
       \<and> (spec_resolve_path env mc_path lib g a v = None \<and> check_library_rules env lib = Inr ok
            \<longrightarrow> libraries_loop env mc_path result (lib # libs)
                = libraries_loop env mc_path result libs)"
proof -
  have eq: "get_library_path env mc_path lib = spec_resolve_path env mc_path lib g a v"
    using get_library_path_try_three [OF assms, of env mc_path]
    by (simp add: get_library_path_def)
  then show ?thesis by simp
qed

theorem get_library_path_resolution_witness:
  "get_library_path
     (posix_platform ''AMD64''
        [''.minecraft/libraries/org/lwjgl/lwjgl-platform/2.9.4/lwjgl-platform-2.9.4-natives-windows-64.jar'',
         ''.minecraft/libraries/org/lwjgl/lwjgl-platform/2.9.4/lwjgl-platform-2.9.4.jar''])
     (posix_parse ''.minecraft'')
     \<lparr>lib_name = Some ''org.lwjgl:lwjgl-platform:2.9.4'', lib_rules = None,
      lib_natives = Some [''windows'' \<mapsto> ''natives-windows-${arch}'']\<rparr>
   = Some ''.minecraft/libraries/org/lwjgl/lwjgl-platform/2.9.4/lwjgl-platform-2.9.4-natives-windows-64.jar''
   \<and> get_library_path (posix_platform ''AMD64'' [''.minecraft/libraries/org/example/foo/1.0/foo-1.0.jar''])
       (posix_parse ''.minecraft'')
       \<lparr>lib_name = Some ''org.example:foo:1.0'', lib_rules = None, lib_natives = None\<rparr>
     = Some ''.minecraft/libraries/org/example/foo/1.0/foo-1.0.jar''
   \<and> get_library_path (posix_platform ''AMD64'' []) (posix_parse ''.minecraft'')
       \<lparr>lib_name = Some ''org.example:foo:1.0'', lib_rules = None, lib_natives = None\<rparr>
     = None
   \<and> libraries_loop (posix_platform ''AMD64'' []) (posix_parse ''.minecraft'')
       [''.minecraft/versions/1.20.1/1.20.1.jar'']
       [\<lparr>lib_name = Some ''org.example:foo:1.0'', lib_rules = None, lib_natives = None\<rparr>]
     = Inr [''.minecraft/versions/1.20.1/1.20.1.jar'']"
proof -
  let ?native = "''.minecraft/libraries/org/lwjgl/lwjgl-platform/2.9.4/lwjgl-platform-2.9.4-natives-windows-64.jar''"
  let ?plain = "''.minecraft/libraries/org/lwjgl/lwjgl-platform/2.9.4/lwjgl-platform-2.9.4.jar''"
  let ?foo_jar = "''.minecraft/libraries/org/example/foo/1.0/foo-1.0.jar''"
  let ?lwjgl = "\<lparr>lib_name = Some ''org.lwjgl:lwjgl-platform:2.9.4'', lib_rules = None,
                 lib_natives = Some [''windows'' \<mapsto> ''natives-windows-${arch}'']\<rparr>"
  let ?foo = "\<lparr>lib_name = Some ''org.example:foo:1.0'', lib_rules = None, lib_natives = None\<rparr>"
  let ?mc = "posix_parse ''.minecraft''"
  have s1: "py_split CHR '':'' ''org.lwjgl:lwjgl-platform:2.9.4''
              = [''org.lwjgl'', ''lwjgl-platform'', ''2.9.4'']"
    by simp
  have s2: "py_split CHR '':'' ''org.example:foo:1.0'' = [''org.example'', ''foo'', ''1.0'']"
    by simp
  have r1: "spec_resolve_path (posix_platform ''AMD64'' [?native, ?plain]) ?mc ?lwjgl
              ''org.lwjgl'' ''lwjgl-platform'' ''2.9.4'' = Some ?native"
    by (simp add: spec_resolve_path_def spec_native_classifier_def spec_arch_token_def
        spec_base_dir_def spec_plain_jar_def posix_platform_def posix_parse_def
        posix_truediv_def posix_str_def posix_root_def py_replace_def py_endswith_def Let_def)
  have r2: "spec_resolve_path (posix_platform ''AMD64'' [?foo_jar]) ?mc ?foo
              ''org.example'' ''foo'' ''1.0'' = Some ?foo_jar"
    by (simp add: spec_resolve_path_def spec_native_classifier_def
        spec_base_dir_def spec_plain_jar_def posix_platform_def posix_parse_def
        posix_truediv_def posix_str_def posix_root_def py_replace_def Let_def)
  have r3: "spec_resolve_path (posix_platform ''AMD64'' []) ?mc ?foo
              ''org.example'' ''foo'' ''1.0'' = None"
    by (simp add: spec_resolve_path_def spec_native_classifier_def
        spec_base_dir_def spec_plain_jar_def posix_platform_def Let_def)
  have ok: "check_library_rules (posix_platform ''AMD64'' []) ?foo = Inr True"
    by (simp add: check_library_rules_def)
  show ?thesis
    using r1 r2 r3 ok
      get_library_path_resolution [where lib = ?lwjgl and n = "''org.lwjgl:lwjgl-platform:2.9.4''"
        and env = "posix_platform ''AMD64'' [?native, ?plain]" and mc_path = ?mc, OF _ s1]
      get_library_path_resolution [where lib = ?foo and n = "''org.example:foo:1.0''"
        and env = "posix_platform ''AMD64'' [?foo_jar]" and mc_path = ?mc, OF _ s2]
      get_library_path_resolution [where lib = ?foo and n = "''org.example:foo:1.0''"
        and env = "posix_platform ''AMD64'' []" and mc_path = ?mc and ok = True
        and result = "[''.minecraft/versions/1.20.1/1.20.1.jar'']" and libs = "[]", OF _ s2]
    by simp
qed

section \<open>Properties of the classpath builder\<close>

lemma libraries_loop_accepted:
  assumes "\<forall>lib \<in> set libs. \<exists>ok. check_library_rules env lib = Inr ok"
    and "\<forall>lib \<in> set libs. get_library_path env mc_path lib \<noteq> Some []"
  shows "libraries_loop env mc_path result libs
           = Inr (result @ spec_accepted_paths env mc_path libs)"
  using assms
proof (induction libs arbitrary: result)
  case Nil
  then show ?case by (simp add: spec_accepted_paths_def)
next
  case (Cons lib libs)
  from Cons.prems obtain ok where ok: "check_library_rules env lib = Inr ok"
    by auto
  have rest: "libraries_loop env mc_path r libs = Inr (r @ spec_accepted_paths env mc_path libs)"
    for r
    using Cons.IH Cons.prems by simp
  have nonempty: "get_library_path env mc_path lib \<noteq> Some []"
    using Cons.prems by simp
  show ?case
    using ok rest nonempty
    by (cases "get_library_path env mc_path lib") (auto simp: spec_accepted_paths_def)
qed

lemma prefix_py_join: "prefix x (py_join s (x # xs))"
  by (cases xs) simp_all

text \<open>
  C5: for a descriptor with an identifier whose library rules are well formed, the
  classpath is the version's own jar \<open>root/versions/id/id.jar\<close>, taken without asking
  whether it exists, followed by the resolved paths of the accepted and found
  libraries in descriptor order, duplicates kept, joined with \<open>os.pathsep\<close>; the
  classpath string starts with the version's jar. The test \<open>if lib_path\<close> also skips
  an empty string; pathlib prints no path so, which the last hypothesis records.
\<close>

theorem build_libraries_path_classpath:
  assumes "vj_id version_json = Some i"
    and "\<forall>lib \<in> set (spec_libraries version_json). \<exists>ok. check_library_rules env lib = Inr ok"
    and "\<forall>lib \<in> set (spec_libraries version_json). get_library_path env mc_path lib \<noteq> Some []"
  shows "build_libraries_path env mc_path version_json
           = Inr (py_join (os_pathsep env)
                    (spec_version_jar env mc_path i
                       # spec_accepted_paths env mc_path (spec_libraries version_json)))
       \<and> prefix (spec_version_jar env mc_path i)
           (py_join (os_pathsep env)
              (spec_version_jar env mc_path i
                 # spec_accepted_paths env mc_path (spec_libraries version_json)))"
proof -
  have loop: "libraries_loop env mc_path r (spec_libraries version_json)
      = Inr (r @ spec_accepted_paths env mc_path (spec_libraries version_json))" for r
    using assms(2,3) by (rule libraries_loop_accepted)
  have "build_libraries_path env mc_path version_json
      = Inr (py_join (os_pathsep env)
               (spec_version_jar env mc_path i
                  # spec_accepted_paths env mc_path (spec_libraries version_json)))"
  proof (cases "vj_libraries version_json")
    case None
    then show ?thesis
      using assms(1)
      by (simp add: build_libraries_path_def spec_libraries_def spec_accepted_paths_def
          spec_version_jar_def)
  next
    case (Some lv)
    show ?thesis
    proof (cases lv)
      case (LibraryList libs)
      with Some have libs: "spec_libraries version_json = libs"
        by (simp add: spec_libraries_def)
      show ?thesis
        using assms(1) Some LibraryList loop [of "[spec_version_jar env mc_path i]"] libs
        by (simp add: build_libraries_path_def spec_version_jar_def)
    next
      case NotAList
      with Some show ?thesis
        using assms(1)
        by (simp add: build_libraries_path_def spec_libraries_def spec_accepted_paths_def
            spec_version_jar_def)
    qed
  qed
  then show ?thesis using prefix_py_join by simp
qed

theorem build_libraries_path_classpath_witness:
  "build_libraries_path
     (posix_platform ''AMD64'' [''.minecraft/libraries/org/example/foo/1.0/foo-1.0.jar''])
     (posix_parse ''.minecraft'')
     \<lparr>vj_id = Some ''1.20.1'', vj_mainClass = Some ''net.minecraft.client.main.Main'',
      vj_assets = None,
      vj_libraries = Some (LibraryList
        [\<lparr>lib_name = Some ''org.example:foo:1.0'', lib_rules = None, lib_natives = None\<rparr>,
         \<lparr>lib_name = Some ''org.example:mac:1.0'',
          lib_rules = Some [\<lparr>rule_action = Some ''allow'',
                             rule_os = Some \<lparr>os_name_key = Some ''osx'',
                                             os_arch_key = None\<rparr>\<rparr>],
          lib_natives = None\<rparr>,
         \<lparr>lib_name = Some ''org.example:foo:1.0'', lib_rules = None, lib_natives = None\<rparr>,
         \<lparr>lib_name = Some ''org.example:gone:1.0'', lib_rules = None, lib_natives = None\<rparr>]),
      vj_minecraftArguments = None, vj_arguments = None\<rparr>
   = Inr (''.minecraft/versions/1.20.1/1.20.1.jar''
          @ '':.minecraft/libraries/org/example/foo/1.0/foo-1.0.jar''
          @ '':.minecraft/libraries/org/example/foo/1.0/foo-1.0.jar'')"
proof -
  let ?env = "posix_platform ''AMD64'' [''.minecraft/libraries/org/example/foo/1.0/foo-1.0.jar'']"
  let ?mc = "posix_parse ''.minecraft''"
  let ?foo = "\<lparr>lib_name = Some ''org.example:foo:1.0'', lib_rules = None, lib_natives = None\<rparr>"
  let ?mac = "\<lparr>lib_name = Some ''org.example:mac:1.0'',
               lib_rules = Some [\<lparr>rule_action = Some ''allow'',
                                  rule_os = Some \<lparr>os_name_key = Some ''osx'',
                                                  os_arch_key = None\<rparr>\<rparr>],
               lib_natives = None\<rparr>"
  let ?gone = "\<lparr>lib_name = Some ''org.example:gone:1.0'', lib_rules = None, lib_natives = None\<rparr>"
  let ?vj = "\<lparr>vj_id = Some ''1.20.1'', vj_mainClass = Some ''net.minecraft.client.main.Main'',
              vj_assets = None, vj_libraries = Some (LibraryList [?foo, ?mac, ?foo, ?gone]),
              vj_minecraftArguments = None, vj_arguments = None\<rparr>"
  have libs: "spec_libraries ?vj = [?foo, ?mac, ?foo, ?gone]"
    by (simp add: spec_libraries_def)
  have c1: "check_library_rules ?env ?foo = Inr True"
    by (simp add: check_library_rules_def)
  have c2: "check_library_rules ?env ?mac = Inr False"
    by (simp add: check_library_rules_def os_name_def)
  have c3: "check_library_rules ?env ?gone = Inr True"
    by (simp add: check_library_rules_def)
  have g1: "get_library_path ?env ?mc ?foo
              = Some ''.minecraft/libraries/org/example/foo/1.0/foo-1.0.jar''"
    by (simp add: get_library_path_def get_library_path_try_def py_index_def
        posix_platform_def posix_parse_def posix_truediv_def posix_str_def posix_root_def
        py_replace_def Let_def)
  have g2: "get_library_path ?env ?mc ?mac = None"
    by (simp add: get_library_path_def get_library_path_try_def py_index_def
        posix_platform_def posix_parse_def posix_truediv_def posix_str_def posix_root_def
        py_replace_def Let_def)
  have g3: "get_library_path ?env ?mc ?gone = None"
    by (simp add: get_library_path_def get_library_path_try_def py_index_def
        posix_platform_def posix_parse_def posix_truediv_def posix_str_def posix_root_def
        py_replace_def Let_def)
  have jar: "spec_version_jar ?env ?mc ''1.20.1'' = ''.minecraft/versions/1.20.1/1.20.1.jar''"
    by (simp add: spec_version_jar_def posix_platform_def posix_parse_def posix_truediv_def
        posix_str_def posix_root_def)
  have sep: "os_pathsep ?env = '':''"
    by (simp add: posix_platform_def)
  have h1: "\<forall>lib \<in> set (spec_libraries ?vj). \<exists>ok. check_library_rules ?env lib = Inr ok"
    using c1 c2 c3 by (auto simp: libs)
  have h2: "\<forall>lib \<in> set (spec_libraries ?vj). get_library_path ?env ?mc lib \<noteq> Some []"
    using g1 g2 g3 by (simp add: libs)
  have acc: "spec_accepted_paths ?env ?mc [?foo, ?mac, ?foo, ?gone]
      = [''.minecraft/libraries/org/example/foo/1.0/foo-1.0.jar'',
         ''.minecraft/libraries/org/example/foo/1.0/foo-1.0.jar'']"
    using c1 c2 c3 g1 g3 by (simp add: spec_accepted_paths_def)
  show ?thesis
    using build_libraries_path_classpath [where version_json = ?vj and i = "''1.20.1''"
        and env = ?env and mc_path = ?mc, OF _ h1 h2]
    by (simp add: libs acc jar sep)
qed

section \<open>Properties of the argument templater\<close>

lemma replace_scan_absent: "\<not> sublist old s \<Longrightarrow> replace_scan old new s = s"
proof (induction s)
  case Nil
  then show ?case by simp
next
  case (Cons c cs)
  have "\<not> prefix old (c # cs)"
    using Cons.prems prefix_imp_sublist by blast
  moreover have "\<not> sublist old cs"
    using Cons.prems by (simp add: sublist_Cons_right)
  ultimately show ?case using Cons.IH by simp
qed

lemma py_replace_absent: "\<not> sublist old s \<Longrightarrow> py_replace old new s = s"
  by (cases "old = []") (simp_all add: py_replace_def replace_scan_absent)

lemma foldl_py_replace_absent:
  "\<forall>k \<in> fst ` set reps. \<not> sublist k s \<Longrightarrow>
     foldl (\<lambda>acc (placeholder, v). py_replace placeholder v acc) s reps = s"
  by (induction reps) (auto simp: py_replace_absent)

lemma py_strip_trimmed:
  "py_strip s = [] \<or> (\<not> py_isspace (hd (py_strip s)) \<and> \<not> py_isspace (last (py_strip s)))"
proof (cases "py_strip s = []")
  case True
  then show ?thesis by simp
next
  case False
  let ?t = "dropWhile py_isspace s"
  let ?u = "dropWhile py_isspace (rev ?t)"
  have u: "?u \<noteq> []" using False by (simp add: py_strip_def)
  have t: "?t \<noteq> []"
  proof
    assume "?t = []"
    then have "?u = []" by (simp only: rev.simps dropWhile.simps)
    with u show False by (simp only:)
  qed
  have "\<not> py_isspace (hd ?u)" using u by (rule hd_dropWhile)
  then have last_ok: "\<not> py_isspace (last (py_strip s))"
    using u by (simp add: py_strip_def last_rev)
  have "suffix ?u (rev ?t)" by (rule suffix_dropWhile)
  then obtain zs where "rev ?t = zs @ ?u" by (auto simp: suffix_def)
  then have "?t = rev ?u @ rev zs" by (metis rev_append rev_rev_ident)
  then have "hd ?t = hd (rev ?u)" using u by (metis hd_append2 rev_is_Nil_conv)
  moreover have "\<not> py_isspace (hd ?t)" using t by (rule hd_dropWhile)
  ultimately have "\<not> py_isspace (hd (py_strip s))" by (simp add: py_strip_def)
  with last_ok show ?thesis by simp
qed

lemma replace_scan_literal:
  assumes "k \<noteq> []" and "hd k \<notin> set t"
  shows "replace_scan k v (t @ s) = t @ replace_scan k v s"
  using assms
proof (induction t)
  case Nil
  then show ?case by simp
next
  case (Cons c t)
  then have "\<not> prefix k (c # t @ s)"
    by (cases k) auto
  with Cons show ?case by simp
qed

lemma replace_scan_key:
  assumes "k \<noteq> []"
  shows "replace_scan k v (k @ s) = v @ replace_scan k v s"
  using assms by (cases k) simp_all

lemma replace_scan_other:
  assumes "k \<noteq> []" and "h \<noteq> []" and "hd k \<notin> set (tl h)"
    and "\<not> prefix k h" and "\<not> prefix h k"
  shows "replace_scan k v (h @ s) = h @ replace_scan k v s"
proof -
  obtain a r where h: "h = a # r" using assms(2) by (cases h) auto
  have "\<not> prefix k (h @ s)"
    using assms(4,5) by (auto simp: prefix_append)
  then have "replace_scan k v (h @ s) = a # replace_scan k v (r @ s)"
    by (simp add: h)
  also have "replace_scan k v (r @ s) = r @ replace_scan k v s"
    using assms(1,3) h by (simp add: replace_scan_literal)
  finally show ?thesis by (simp add: h)
qed

lemma spec_template_text_simps:
  "spec_template_text [] = []"
  "spec_template_text (Literal t # segs) = t @ spec_template_text segs"
  "spec_template_text (Placeholder h # segs) = h @ spec_template_text segs"
  by (simp_all add: spec_template_text_def)

lemma spec_substitute_one_simps:
  "spec_substitute_one k v (Literal t) = Literal t"
  "spec_substitute_one k v (Placeholder h) = (if h = k then Literal v else Placeholder h)"
  by (simp_all add: spec_substitute_one_def)

lemma replace_scan_template:
  assumes "k \<noteq> []" and "hd k = CHR ''$''"
    and "\<forall>seg \<in> set segs. spec_wf_segment (k # keys) seg"
  shows "replace_scan k v (spec_template_text segs)
           = spec_template_text (map (spec_substitute_one k v) segs)"
  using assms(3)
proof (induction segs)
  case Nil
  then show ?case by (simp add: spec_template_text_simps)
next
  case (Cons seg segs)
  have rest: "replace_scan k v (spec_template_text segs)
      = spec_template_text (map (spec_substitute_one k v) segs)"
    using Cons by simp
  show ?case
  proof (cases seg)
    case (Literal t)
    then have "hd k \<notin> set t" using Cons.prems assms(2) by simp
    then show ?thesis
      using Literal rest assms(1)
      by (simp add: spec_template_text_simps spec_substitute_one_simps replace_scan_literal)
  next
    case (Placeholder h)
    show ?thesis
    proof (cases "h = k")
      case True
      then show ?thesis
        using Placeholder rest assms(1)
        by (simp add: spec_template_text_simps spec_substitute_one_simps replace_scan_key)
    next
      case False
      then have "h \<noteq> []" "hd k \<notin> set (tl h)" "\<not> prefix k h" "\<not> prefix h k"
        using Cons.prems Placeholder assms(2) by auto
      then show ?thesis
        using Placeholder rest assms(1) False
        by (simp add: spec_template_text_simps spec_substitute_one_simps replace_scan_other)
    qed
  qed
qed

lemma spec_substitute_one_wf:
  assumes "spec_wf_segment (k # keys) seg" and "CHR ''$'' \<notin> set v"
  shows "spec_wf_segment keys (spec_substitute_one k v seg)"
  using assms by (cases seg) (auto simp: spec_substitute_one_def)

lemma spec_substitute_Cons:
  "spec_substitute table (map (spec_substitute_one k v) segs)
     = spec_substitute ((k, v) # table) segs"
  by (induction segs) (auto simp: spec_substitute_def spec_substitute_one_def split: segment.splits)

lemma foldl_replace_template:
  assumes "\<forall>k \<in> set (map fst table). k \<noteq> [] \<and> hd k = CHR ''$''"
    and "\<forall>v \<in> set (map snd table). CHR ''$'' \<notin> set v"
    and "\<forall>seg \<in> set segs. spec_wf_segment (map fst table) seg"
  shows "foldl (\<lambda>s (placeholder, v). py_replace placeholder v s) (spec_template_text segs) table
           = spec_substitute table segs"
  using assms
proof (induction table arbitrary: segs)
  case Nil
  then show ?case by (simp add: spec_substitute_def spec_template_text_def)
next
  case (Cons kv table)
  obtain k v where kv: "kv = (k, v)" by (cases kv)
  have k: "k \<noteq> []" "hd k = CHR ''$''" and v: "CHR ''$'' \<notin> set v"
    using Cons.prems(1,2) kv by auto
  have wf: "\<forall>seg \<in> set segs. spec_wf_segment (k # map fst table) seg"
    using Cons.prems(3) kv by simp
  have pass: "py_replace k v (spec_template_text segs)
      = spec_template_text (map (spec_substitute_one k v) segs)"
    using replace_scan_template [OF k wf] k(1) by (simp add: py_replace_def)
  have wf': "\<forall>seg \<in> set (map (spec_substitute_one k v) segs). spec_wf_segment (map fst table) seg"
    using wf v by (auto intro: spec_substitute_one_wf)
  have "foldl (\<lambda>s (placeholder, v). py_replace placeholder v s)
          (spec_template_text (map (spec_substitute_one k v) segs)) table
      = spec_substitute table (map (spec_substitute_one k v) segs)"
    using Cons.IH [OF _ _ wf'] Cons.prems(1,2) by simp
  then show ?case
    using pass by (simp add: kv spec_substitute_Cons)
qed

lemma replacements_keys:
  "\<forall>k \<in> set (map fst (replacements env mc_path version_name player_name version_json)).
     k \<noteq> [] \<and> hd k = CHR ''$''"
  by (simp add: replacements_def)

lemma build_game_arguments_template:
  assumes "py_join '' '' (game_tokens version_json) = spec_template_text segs"
    and "\<forall>seg \<in> set segs.
           spec_wf_segment
             (map fst (replacements env mc_path version_name player_name version_json)) seg"
    and "\<forall>v \<in> set (map snd (replacements env mc_path version_name player_name version_json)).
           CHR ''$'' \<notin> set v"
  shows "build_game_arguments env mc_path version_name player_name version_json
           = py_strip (spec_substitute
                         (replacements env mc_path version_name player_name version_json) segs)"
  using foldl_replace_template [OF replacements_keys assms(3) assms(2)] assms(1)
  by (simp add: build_game_arguments_def)

text \<open>
  The table itself: a template that names each of the nine placeholders once comes out
  as the nine values, in the same places.
\<close>

lemma build_game_arguments_all_placeholders:
  assumes "CHR ''$'' \<notin> set player_name"
    and "CHR ''$'' \<notin> set version_name"
    and "CHR ''$'' \<notin> set (path_str env mc_path)"
    and "CHR ''$'' \<notin> set (path_str env (truediv env mc_path ''assets''))"
    and "CHR ''$'' \<notin> set (case vj_assets version_json of None \<Rightarrow> [] | Some a \<Rightarrow> a)"
  shows \<open>build_game_arguments env mc_path version_name player_name
           (version_json\<lparr>vj_minecraftArguments :=
              Some ''${auth_player_name} ${version_name} ${game_directory} ${assets_root} ${assets_index_name} ${auth_uuid} ${auth_access_token} ${user_type} ${version_type}'',
              vj_arguments := None\<rparr>)
         = py_strip (player_name @ '' '' @ version_name @ '' '' @ path_str env mc_path @ '' ''
                     @ path_str env (truediv env mc_path ''assets'') @ '' ''
                     @ (case vj_assets version_json of None \<Rightarrow> [] | Some a \<Rightarrow> a)
                     @ '' 00000000-0000-0000-0000-000000000000 00000000000000000000000000000000 legacy "WMML 0.1.26"'')\<close>
proof -
  let ?vj = "version_json\<lparr>vj_minecraftArguments :=
      Some ''${auth_player_name} ${version_name} ${game_directory} ${assets_root} ${assets_index_name} ${auth_uuid} ${auth_access_token} ${user_type} ${version_type}'',
      vj_arguments := None\<rparr>"
  let ?segs = "[Placeholder ''${auth_player_name}'', Literal '' '',
                Placeholder ''${version_name}'', Literal '' '',
                Placeholder ''${game_directory}'', Literal '' '',
                Placeholder ''${assets_root}'', Literal '' '',
                Placeholder ''${assets_index_name}'', Literal '' '',
                Placeholder ''${auth_uuid}'', Literal '' '',
                Placeholder ''${auth_access_token}'', Literal '' '',
                Placeholder ''${user_type}'', Literal '' '',
                Placeholder ''${version_type}'']"
  let ?reps = "replacements env mc_path version_name player_name ?vj"
  have joined: "py_join '' '' (game_tokens ?vj) = spec_template_text ?segs"
    by (simp add: game_tokens_def spec_template_text_def)
  have wf: "\<forall>seg \<in> set ?segs. spec_wf_segment (map fst ?reps) seg"
    by (simp add: replacements_def)
  have vals: "\<forall>v \<in> set (map snd ?reps). CHR ''$'' \<notin> set v"
    using assms by (simp add: replacements_def)
  have subst: \<open>spec_substitute ?reps ?segs
      = player_name @ '' '' @ version_name @ '' '' @ path_str env mc_path @ '' ''
        @ path_str env (truediv env mc_path ''assets'') @ '' ''
        @ (case vj_assets version_json of None \<Rightarrow> [] | Some a \<Rightarrow> a)
        @ '' 00000000-0000-0000-0000-000000000000 00000000000000000000000000000000 legacy "WMML 0.1.26"''\<close>
    by (simp add: spec_substitute_def replacements_def)
  show ?thesis
    using build_game_arguments_template [OF joined wf vals] by (simp only: subst)
qed

text \<open>
  C6: the result is the space-joined token string with the table of placeholders
  substituted in sequence, trimmed of whitespace at both ends. On a template made of
  literal text and placeholders, with values free of \<open>$\<close>, every recognized
  placeholder is replaced by its value and every unrecognized one stays verbatim; a
  string in which no recognized placeholder occurs comes out as it is (trimmed). The
  table is the nine placeholders of the source with their nine values, applied in the
  order of the table: a player name that is itself a later placeholder is substituted
  once more. Trimming removes every character \<open>str.isspace\<close> accepts, the no-break
  space and the next-line control among them. The template
  \<open>--username ${auth_player_name} --uuid ${auth_uuid}\<close> with the player \<open>Alice\<close> gives
  \<open>--username Alice --uuid 00000000-0000-0000-0000-000000000000\<close>, and an object in
  \<open>arguments.game\<close> is dropped.
\<close>

theorem build_game_arguments_substitution:
  \<open>build_game_arguments env mc_path version_name player_name version_json
     = py_strip (foldl (\<lambda>s (placeholder, v). py_replace placeholder v s)
                  (py_join '' '' (game_tokens version_json))
                  (replacements env mc_path version_name player_name version_json))
   \<and> (py_join '' '' (game_tokens version_json) = spec_template_text segs
        \<and> (\<forall>seg \<in> set segs.
              spec_wf_segment
                (map fst (replacements env mc_path version_name player_name version_json)) seg)
        \<and> (\<forall>v \<in> set (map snd (replacements env mc_path version_name player_name
                                   version_json)).
              CHR ''$'' \<notin> set v)
        \<longrightarrow> build_game_arguments env mc_path version_name player_name version_json
              = py_strip (spec_substitute
                            (replacements env mc_path version_name player_name version_json)
                            segs))
   \<and> (CHR ''$'' \<notin> set player_name \<and> CHR ''$'' \<notin> set version_name
        \<and> CHR ''$'' \<notin> set (path_str env mc_path)
        \<and> CHR ''$'' \<notin> set (path_str env (truediv env mc_path ''assets''))
        \<and> CHR ''$'' \<notin> set (case vj_assets version_json of None \<Rightarrow> [] | Some a \<Rightarrow> a)
        \<longrightarrow> build_game_arguments env mc_path version_name player_name
              (version_json\<lparr>vj_minecraftArguments :=
                 Some ''${auth_player_name} ${version_name} ${game_directory} ${assets_root} ${assets_index_name} ${auth_uuid} ${auth_access_token} ${user_type} ${version_type}'',
                 vj_arguments := None\<rparr>)
            = py_strip (player_name @ '' '' @ version_name @ '' '' @ path_str env mc_path
                        @ '' '' @ path_str env (truediv env mc_path ''assets'') @ '' ''
                        @ (case vj_assets version_json of None \<Rightarrow> [] | Some a \<Rightarrow> a)
                        @ '' 00000000-0000-0000-0000-000000000000 00000000000000000000000000000000 legacy "WMML 0.1.26"''))
   \<and> map fst (replacements env mc_path version_name player_name version_json)
       = [''${auth_player_name}'', ''${version_name}'', ''${game_directory}'',
          ''${assets_root}'', ''${assets_index_name}'', ''${auth_uuid}'',
          ''${auth_access_token}'', ''${user_type}'', ''${version_type}'']
   \<and> build_game_arguments env mc_path ''1.20.1'' ''${version_name}''
        (version_json\<lparr>vj_minecraftArguments := Some ''--username ${auth_player_name}'',
                       vj_arguments := None\<rparr>)
       = ''--username 1.20.1''
   \<and> ((\<forall>k \<in> fst ` set (replacements env mc_path version_name player_name version_json).
          \<not> sublist k (py_join '' '' (game_tokens version_json)))
        \<longrightarrow> build_game_arguments env mc_path version_name player_name version_json
              = py_strip (py_join '' '' (game_tokens version_json)))
   \<and> (build_game_arguments env mc_path version_name player_name version_json = []
        \<or> (\<not> py_isspace (hd (build_game_arguments env mc_path version_name player_name
                                 version_json))
            \<and> \<not> py_isspace (last (build_game_arguments env mc_path version_name player_name
                                     version_json))))
   \<and> build_game_arguments env mc_path version_name ''Alice''
        (version_json\<lparr>vj_minecraftArguments :=
                         Some (CHR 0xA0 # ''--demo ${auth_player_name}'' @ [CHR 0x85]),
                       vj_arguments := None\<rparr>)
       = ''--demo Alice''
   \<and> build_game_arguments env mc_path version_name ''Alice''
        (version_json\<lparr>vj_minecraftArguments :=
                         Some ''--username ${auth_player_name} --uuid ${auth_uuid}'',
                       vj_arguments := None\<rparr>)
       = ''--username Alice --uuid 00000000-0000-0000-0000-000000000000''
   \<and> build_game_arguments env mc_path version_name ''Alice''
        (version_json\<lparr>vj_minecraftArguments := None,
                       vj_arguments := Some \<lparr>args_game = Some
                         [ArgStr ''--demo'', ArgStr ''${quickPlayPath}'', ArgObject,
                          ArgStr ''--username'', ArgStr ''${auth_player_name}'']\<rparr>\<rparr>)
       = ''--demo ${quickPlayPath} --username Alice''\<close>
proof -
  let ?b = "build_game_arguments env mc_path version_name player_name version_json"
  let ?joined = "py_join '' '' (game_tokens version_json)"
  let ?reps = "replacements env mc_path version_name player_name version_json"
  have unfolded: "?b = py_strip (foldl (\<lambda>s (placeholder, v). py_replace placeholder v s)
                                   ?joined ?reps)"
    by (simp add: build_game_arguments_def)
  have template: "?joined = spec_template_text segs
      \<and> (\<forall>seg \<in> set segs. spec_wf_segment (map fst ?reps) seg)
      \<and> (\<forall>v \<in> set (map snd ?reps). CHR ''$'' \<notin> set v)
      \<longrightarrow> ?b = py_strip (spec_substitute ?reps segs)"
    using build_game_arguments_template [of version_json segs env mc_path version_name
        player_name]
    by blast
  have all_nine: \<open>CHR ''$'' \<notin> set player_name \<and> CHR ''$'' \<notin> set version_name
      \<and> CHR ''$'' \<notin> set (path_str env mc_path)
      \<and> CHR ''$'' \<notin> set (path_str env (truediv env mc_path ''assets''))
      \<and> CHR ''$'' \<notin> set (case vj_assets version_json of None \<Rightarrow> [] | Some a \<Rightarrow> a)
      \<longrightarrow> build_game_arguments env mc_path version_name player_name
            (version_json\<lparr>vj_minecraftArguments :=
               Some ''${auth_player_name} ${version_name} ${game_directory} ${assets_root} ${assets_index_name} ${auth_uuid} ${auth_access_token} ${user_type} ${version_type}'',
               vj_arguments := None\<rparr>)
          = py_strip (player_name @ '' '' @ version_name @ '' '' @ path_str env mc_path
                      @ '' '' @ path_str env (truediv env mc_path ''assets'') @ '' ''
                      @ (case vj_assets version_json of None \<Rightarrow> [] | Some a \<Rightarrow> a)
                      @ '' 00000000-0000-0000-0000-000000000000 00000000000000000000000000000000 legacy "WMML 0.1.26"'')\<close>
    using build_game_arguments_all_placeholders [of player_name version_name env mc_path
        version_json]
    by blast
  have keys: "map fst ?reps
      = [''${auth_player_name}'', ''${version_name}'', ''${game_directory}'',
         ''${assets_root}'', ''${assets_index_name}'', ''${auth_uuid}'',
         ''${auth_access_token}'', ''${user_type}'', ''${version_type}'']"
    by (simp add: replacements_def)
  have in_order: "build_game_arguments env mc_path ''1.20.1'' ''${version_name}''
        (version_json\<lparr>vj_minecraftArguments := Some ''--username ${auth_player_name}'',
                       vj_arguments := None\<rparr>)
       = ''--username 1.20.1''"
    by (simp add: build_game_arguments_def game_tokens_def replacements_def py_replace_def
        py_strip_def py_isspace_def)
  have untouched: "(\<forall>k \<in> fst ` set ?reps. \<not> sublist k ?joined) \<longrightarrow> ?b = py_strip ?joined"
    using foldl_py_replace_absent [of ?reps ?joined] by (simp add: build_game_arguments_def)
  have trimmed: "?b = [] \<or> (\<not> py_isspace (hd ?b) \<and> \<not> py_isspace (last ?b))"
    unfolding unfolded by (rule py_strip_trimmed)
  have no_break: "build_game_arguments env mc_path version_name ''Alice''
        (version_json\<lparr>vj_minecraftArguments :=
                         Some (CHR 0xA0 # ''--demo ${auth_player_name}'' @ [CHR 0x85]),
                       vj_arguments := None\<rparr>)
       = ''--demo Alice''"
    by (simp add: build_game_arguments_def game_tokens_def replacements_def py_replace_def
        py_strip_def py_isspace_def)
  have alice: "build_game_arguments env mc_path version_name ''Alice''
        (version_json\<lparr>vj_minecraftArguments :=
                         Some ''--username ${auth_player_name} --uuid ${auth_uuid}'',
                       vj_arguments := None\<rparr>)
       = ''--username Alice --uuid 00000000-0000-0000-0000-000000000000''"
    by (simp add: build_game_arguments_def game_tokens_def replacements_def py_replace_def
        py_strip_def py_isspace_def)
  have unknown: "build_game_arguments env mc_path version_name ''Alice''
        (version_json\<lparr>vj_minecraftArguments := None,
                       vj_arguments := Some \<lparr>args_game = Some
                         [ArgStr ''--demo'', ArgStr ''${quickPlayPath}'', ArgObject,
                          ArgStr ''--username'', ArgStr ''${auth_player_name}'']\<rparr>\<rparr>)
       = ''--demo ${quickPlayPath} --username Alice''"
    by (simp add: build_game_arguments_def game_tokens_def replacements_def py_replace_def
        py_strip_def py_isspace_def)
  from unfolded template all_nine keys in_order untouched trimmed no_break alice unknown
  show ?thesis by (intro conjI)
qed

theorem build_game_arguments_substitution_witness:
  \<open>build_game_arguments (posix_platform ''AMD64'' []) (posix_parse ''.minecraft'')
     ''1.20.1'' ''Alice''
     \<lparr>vj_id = Some ''1.20.1'', vj_mainClass = Some ''Main'', vj_assets = Some ''5'',
      vj_libraries = None,
      vj_minecraftArguments =
        Some ''--username ${auth_player_name} --gameDir ${game_directory} --path ${quickPlayPath} '',
      vj_arguments = None\<rparr>
   = ''--username Alice --gameDir .minecraft --path ${quickPlayPath}''
   \<and> build_game_arguments (posix_platform ''AMD64'' []) (posix_parse ''.minecraft'')
     ''1.20.1'' ''Alice''
     \<lparr>vj_id = Some ''1.20.1'', vj_mainClass = Some ''Main'', vj_assets = Some ''5'',
      vj_libraries = None,
      vj_minecraftArguments =
        Some ''${auth_player_name} ${version_name} ${game_directory} ${assets_root} ${assets_index_name} ${auth_uuid} ${auth_access_token} ${user_type} ${version_type}'',
      vj_arguments = None\<rparr>
   = ''Alice 1.20.1 .minecraft .minecraft/assets 5 00000000-0000-0000-0000-000000000000 00000000000000000000000000000000 legacy "WMML 0.1.26"''
   \<and> build_game_arguments (posix_platform ''AMD64'' []) (posix_parse ''.minecraft'')
     ''1.20.1'' ''Alice''
     \<lparr>vj_id = Some ''1.20.1'', vj_mainClass = Some ''Main'', vj_assets = Some ''5'',
      vj_libraries = None, vj_minecraftArguments = Some '' --demo ${quickPlayPath} '',
      vj_arguments = None\<rparr>
   = ''--demo ${quickPlayPath}''\<close>
proof (intro conjI)
  let ?env = "posix_platform ''AMD64'' []"
  let ?mc = "posix_parse ''.minecraft''"
  let ?vj = "\<lparr>vj_id = Some ''1.20.1'', vj_mainClass = Some ''Main'', vj_assets = Some ''5'',
              vj_libraries = None,
              vj_minecraftArguments =
                Some ''--username ${auth_player_name} --gameDir ${game_directory} --path ${quickPlayPath} '',
              vj_arguments = None\<rparr>"
  let ?segs = "[Literal ''--username '', Placeholder ''${auth_player_name}'',
                Literal '' --gameDir '', Placeholder ''${game_directory}'',
                Literal '' --path '', Placeholder ''${quickPlayPath}'', Literal '' '']"
  let ?reps = "replacements ?env ?mc ''1.20.1'' ''Alice'' ?vj"
  have joined: "py_join '' '' (game_tokens ?vj) = spec_template_text ?segs"
    by (simp add: game_tokens_def spec_template_text_def)
  have wf: "\<forall>seg \<in> set ?segs. spec_wf_segment (map fst ?reps) seg"
    by (simp add: replacements_def)
  have vals: "\<forall>v \<in> set (map snd ?reps). CHR ''$'' \<notin> set v"
    by (simp add: replacements_def posix_platform_def posix_parse_def posix_truediv_def
        posix_str_def posix_root_def)
  have subst: "py_strip (spec_substitute ?reps ?segs)
      = ''--username Alice --gameDir .minecraft --path ${quickPlayPath}''"
    by (simp add: spec_substitute_def replacements_def posix_platform_def posix_parse_def
        posix_str_def posix_root_def py_strip_def py_isspace_def)
  have "build_game_arguments ?env ?mc ''1.20.1'' ''Alice'' ?vj
      = py_strip (spec_substitute ?reps ?segs)"
    using joined wf vals
      build_game_arguments_substitution [where env = ?env and mc_path = ?mc
        and version_name = "''1.20.1''" and player_name = "''Alice''"
        and version_json = ?vj and segs = ?segs]
    by blast
  then show "build_game_arguments ?env ?mc ''1.20.1'' ''Alice'' ?vj
      = ''--username Alice --gameDir .minecraft --path ${quickPlayPath}''"
    by (simp only: subst)
next
  let ?env = "posix_platform ''AMD64'' []"
  let ?mc = "posix_parse ''.minecraft''"
  let ?vj0 = "\<lparr>vj_id = Some ''1.20.1'', vj_mainClass = Some ''Main'', vj_assets = Some ''5'',
               vj_libraries = None, vj_minecraftArguments = None, vj_arguments = None\<rparr>"
  have free: "CHR ''$'' \<notin> set ''Alice'' \<and> CHR ''$'' \<notin> set ''1.20.1''
      \<and> CHR ''$'' \<notin> set (path_str ?env ?mc)
      \<and> CHR ''$'' \<notin> set (path_str ?env (truediv ?env ?mc ''assets''))
      \<and> CHR ''$'' \<notin> set (case vj_assets ?vj0 of None \<Rightarrow> [] | Some a \<Rightarrow> a)"
    by (simp add: posix_platform_def posix_parse_def posix_truediv_def posix_str_def
        posix_root_def)
  have out: \<open>py_strip (''Alice'' @ '' '' @ ''1.20.1'' @ '' '' @ path_str ?env ?mc
                        @ '' '' @ path_str ?env (truediv ?env ?mc ''assets'') @ '' ''
                        @ (case vj_assets ?vj0 of None \<Rightarrow> [] | Some a \<Rightarrow> a)
                        @ '' 00000000-0000-0000-0000-000000000000 00000000000000000000000000000000 legacy "WMML 0.1.26"'')
      = ''Alice 1.20.1 .minecraft .minecraft/assets 5 00000000-0000-0000-0000-000000000000 00000000000000000000000000000000 legacy "WMML 0.1.26"''\<close>
    by (simp add: posix_platform_def posix_parse_def posix_truediv_def posix_str_def
        posix_root_def py_strip_def py_isspace_def)
  have \<open>build_game_arguments ?env ?mc ''1.20.1'' ''Alice''
          (?vj0\<lparr>vj_minecraftArguments :=
             Some ''${auth_player_name} ${version_name} ${game_directory} ${assets_root} ${assets_index_name} ${auth_uuid} ${auth_access_token} ${user_type} ${version_type}'',
             vj_arguments := None\<rparr>)
        = py_strip (''Alice'' @ '' '' @ ''1.20.1'' @ '' '' @ path_str ?env ?mc
                    @ '' '' @ path_str ?env (truediv ?env ?mc ''assets'') @ '' ''
                    @ (case vj_assets ?vj0 of None \<Rightarrow> [] | Some a \<Rightarrow> a)
                    @ '' 00000000-0000-0000-0000-000000000000 00000000000000000000000000000000 legacy "WMML 0.1.26"'')\<close>
    using free
      build_game_arguments_substitution [where env = ?env and mc_path = ?mc
        and version_name = "''1.20.1''" and player_name = "''Alice''"
        and version_json = ?vj0]
    by blast
  then show \<open>build_game_arguments ?env ?mc ''1.20.1'' ''Alice''
     \<lparr>vj_id = Some ''1.20.1'', vj_mainClass = Some ''Main'', vj_assets = Some ''5'',
      vj_libraries = None,
      vj_minecraftArguments =
        Some ''${auth_player_name} ${version_name} ${game_directory} ${assets_root} ${assets_index_name} ${auth_uuid} ${auth_access_token} ${user_type} ${version_type}'',
      vj_arguments = None\<rparr>
   = ''Alice 1.20.1 .minecraft .minecraft/assets 5 00000000-0000-0000-0000-000000000000 00000000000000000000000000000000 legacy "WMML 0.1.26"''\<close>
    using out by simp
next
  let ?env = "posix_platform ''AMD64'' []"
  let ?vj = "\<lparr>vj_id = Some ''1.20.1'', vj_mainClass = Some ''Main'', vj_assets = Some ''5'',
              vj_libraries = None, vj_minecraftArguments = Some '' --demo ${quickPlayPath} '',
              vj_arguments = None\<rparr>"
  have joined: "py_join '' '' (game_tokens ?vj) = '' --demo ${quickPlayPath} ''"
    by (simp add: game_tokens_def)
  have absent: "\<forall>k \<in> fst ` set (replacements ?env (posix_parse ''.minecraft'') ''1.20.1''
                                   ''Alice'' ?vj).
                  \<not> sublist k (py_join '' '' (game_tokens ?vj))"
    unfolding joined by (simp add: replacements_def sublist_Cons_right)
  have strip: "py_strip '' --demo ${quickPlayPath} '' = ''--demo ${quickPlayPath}''"
    by (simp add: py_strip_def py_isspace_def)
  have "build_game_arguments ?env (posix_parse ''.minecraft'') ''1.20.1'' ''Alice'' ?vj
          = py_strip (py_join '' '' (game_tokens ?vj))"
    using absent
      build_game_arguments_substitution [where env = ?env
        and mc_path = "posix_parse ''.minecraft''" and version_name = "''1.20.1''"
        and player_name = "''Alice''" and version_json = ?vj]
    by blast
  then show "build_game_arguments ?env (posix_parse ''.minecraft'') ''1.20.1'' ''Alice'' ?vj
      = ''--demo ${quickPlayPath}''"
    by (simp only: joined strip)
qed

section \<open>Properties of the command synthesizer\<close>

lemma common_args_no_memory_flag:
  "\<forall>t \<in> set (common_args env mc_path version_name).
     \<not> prefix ''-Xmx'' t \<and> \<not> prefix ''-Xms'' t"
  by (simp add: common_args_def)

lemma py_str_int_4096: "py_str_int 4096 = ''4096''"
  by (simp add: py_str_int_def str_nat.simps)

lemma build_java_command_system_memory:
  assumes "opt_java_path opts = Some java_path"
    and "opt_use_system_memory opts = Some True"
  shows "build_java_command env mc_path version_name main_class libraries game_args opts
           = Inr (java_path # common_args env mc_path version_name
                    @ [''-cp'', libraries, main_class] @ py_split CHR '' '' game_args)"
  using assms by (simp add: build_java_command_def)

lemma build_java_command_memory:
  assumes "opt_java_path opts = Some java_path"
    and "opt_use_system_memory opts \<noteq> Some True"
    and "(case opt_memory opts of None \<Rightarrow> MemInt 4096 | Some m \<Rightarrow> m) = MemInt v"
    and "v \<noteq> 0"
  shows "build_java_command env mc_path version_name main_class libraries game_args opts
           = Inr (java_path # (''-Xmx'' @ py_str_int v @ ''M'') # (''-Xms'' @ py_str_int v @ ''M'')
                    # common_args env mc_path version_name
                    @ [''-cp'', libraries, main_class] @ py_split CHR '' '' game_args)"
  using assms
  by (cases "opt_use_system_memory opts")
     (auto simp: build_java_command_def memory_truthy_def memory_text_def)

text \<open>
  C7, as the code has it: with \<open>use_system_memory\<close> true no memory token is appended,
  whatever the memory value: the result is the interpreter path, then at once the fixed
  block, in which no token starts with \<open>-Xmx\<close> or \<open>-Xms\<close>, then \<open>-cp\<close>, the classpath,
  the entry class and the game tokens. With \<open>use_system_memory\<close> false or missing and a
  memory value that is an integer other than zero, \<open>-Xmx<value>M\<close> follows the
  interpreter path and \<open>-Xms<value>M\<close>, with the same value, follows it.
\<close>

theorem build_java_command_memory_flags:
  assumes "opt_java_path opts = Some java_path"
  shows "(opt_use_system_memory opts = Some True \<longrightarrow>
            build_java_command env mc_path version_name main_class libraries game_args opts
              = Inr (java_path # common_args env mc_path version_name
                       @ [''-cp'', libraries, main_class] @ py_split CHR '' '' game_args))
       \<and> (opt_use_system_memory opts \<noteq> Some True \<and> opt_memory opts = Some (MemInt v) \<and> v \<noteq> 0 \<longrightarrow>
            build_java_command env mc_path version_name main_class libraries game_args opts
              = Inr (java_path # (''-Xmx'' @ py_str_int v @ ''M'')
                       # (''-Xms'' @ py_str_int v @ ''M'')
                       # common_args env mc_path version_name
                       @ [''-cp'', libraries, main_class] @ py_split CHR '' '' game_args))
       \<and> (\<forall>t \<in> set (common_args env mc_path version_name).
             \<not> prefix ''-Xmx'' t \<and> \<not> prefix ''-Xms'' t)"
proof (intro conjI impI)
  assume "opt_use_system_memory opts = Some True"
  with assms show "build_java_command env mc_path version_name main_class libraries game_args opts
      = Inr (java_path # common_args env mc_path version_name
               @ [''-cp'', libraries, main_class] @ py_split CHR '' '' game_args)"
    by (rule build_java_command_system_memory)
next
  assume a: "opt_use_system_memory opts \<noteq> Some True \<and> opt_memory opts = Some (MemInt v) \<and> v \<noteq> 0"
  then have "(case opt_memory opts of None \<Rightarrow> MemInt 4096 | Some m \<Rightarrow> m) = MemInt v"
    by simp
  with assms a show "build_java_command env mc_path version_name main_class libraries game_args opts
      = Inr (java_path # (''-Xmx'' @ py_str_int v @ ''M'') # (''-Xms'' @ py_str_int v @ ''M'')
               # common_args env mc_path version_name
               @ [''-cp'', libraries, main_class] @ py_split CHR '' '' game_args)"
    by (simp add: build_java_command_memory)
next
  show "\<forall>t \<in> set (common_args env mc_path version_name).
          \<not> prefix ''-Xmx'' t \<and> \<not> prefix ''-Xms'' t"
    by (rule common_args_no_memory_flag)
qed

theorem build_java_command_memory_flags_witness:
  "build_java_command (posix_platform ''AMD64'' []) (posix_parse ''.minecraft'') ''1.20.1''
     ''net.minecraft.client.main.Main'' ''.minecraft/versions/1.20.1/1.20.1.jar''
     ''--username Alice''
     \<lparr>opt_java_path = Some ''java'', opt_memory = Some (MemInt 2048),
      opt_use_system_memory = Some True\<rparr>
   = Inr (''java'' # common_args (posix_platform ''AMD64'' []) (posix_parse ''.minecraft'')
                      ''1.20.1''
            @ [''-cp'', ''.minecraft/versions/1.20.1/1.20.1.jar'',
               ''net.minecraft.client.main.Main'', ''--username'', ''Alice''])
   \<and> build_java_command (posix_platform ''AMD64'' []) (posix_parse ''.minecraft'') ''1.20.1''
     ''net.minecraft.client.main.Main'' ''.minecraft/versions/1.20.1/1.20.1.jar''
     ''--username Alice''
     \<lparr>opt_java_path = Some ''java'', opt_memory = Some (MemInt 2048),
      opt_use_system_memory = Some False\<rparr>
   = Inr (''java'' # ''-Xmx2048M'' # ''-Xms2048M''
            # common_args (posix_platform ''AMD64'' []) (posix_parse ''.minecraft'') ''1.20.1''
            @ [''-cp'', ''.minecraft/versions/1.20.1/1.20.1.jar'',
               ''net.minecraft.client.main.Main'', ''--username'', ''Alice''])"
proof -
  have number: "py_str_int 2048 = ''2048''"
    by (simp add: py_str_int_def str_nat.simps)
  have tokens: "py_split CHR '' '' ''--username Alice'' = [''--username'', ''Alice'']"
    by simp
  show ?thesis
    using
      build_java_command_memory_flags [where java_path = "''java''"
        and opts = "\<lparr>opt_java_path = Some ''java'', opt_memory = Some (MemInt 2048),
                      opt_use_system_memory = Some True\<rparr>"
        and env = "posix_platform ''AMD64'' []" and mc_path = "posix_parse ''.minecraft''"
        and version_name = "''1.20.1''" and main_class = "''net.minecraft.client.main.Main''"
        and libraries = "''.minecraft/versions/1.20.1/1.20.1.jar''"
        and game_args = "''--username Alice''" and v = 2048]
      build_java_command_memory_flags [where java_path = "''java''"
        and opts = "\<lparr>opt_java_path = Some ''java'', opt_memory = Some (MemInt 2048),
                      opt_use_system_memory = Some False\<rparr>"
        and env = "posix_platform ''AMD64'' []" and mc_path = "posix_parse ''.minecraft''"
        and version_name = "''1.20.1''" and main_class = "''net.minecraft.client.main.Main''"
        and libraries = "''.minecraft/versions/1.20.1/1.20.1.jar''"
        and game_args = "''--username Alice''" and v = 2048]
    by (simp add: number tokens)
qed

text \<open>
  C7, as the specification states it, fails: with \<open>use_system_memory\<close> false and the
  memory value \<open>0\<close> supplied, the test \<open>if not use_system_memory and memory\<close> is false,
  and the result holds neither \<open>-Xmx0M\<close> nor \<open>-Xms0M\<close>.
\<close>

theorem build_java_command_memory_zero_counterexample:
  "build_java_command (posix_platform ''AMD64'' []) (posix_parse ''.minecraft'') ''1.20.1''
     ''net.minecraft.client.main.Main'' ''.minecraft/versions/1.20.1/1.20.1.jar''
     ''--username Alice''
     \<lparr>opt_java_path = Some ''java'', opt_memory = Some (MemInt 0),
      opt_use_system_memory = Some False\<rparr>
   = Inr (''java'' # common_args (posix_platform ''AMD64'' []) (posix_parse ''.minecraft'')
                      ''1.20.1''
            @ [''-cp'', ''.minecraft/versions/1.20.1/1.20.1.jar'',
               ''net.minecraft.client.main.Main'', ''--username'', ''Alice''])
   \<and> ''-Xmx0M'' \<notin> set (''java'' # common_args (posix_platform ''AMD64'' [])
                                      (posix_parse ''.minecraft'') ''1.20.1''
            @ [''-cp'', ''.minecraft/versions/1.20.1/1.20.1.jar'',
               ''net.minecraft.client.main.Main'', ''--username'', ''Alice''])
   \<and> ''-Xms0M'' \<notin> set (''java'' # common_args (posix_platform ''AMD64'' [])
                                      (posix_parse ''.minecraft'') ''1.20.1''
            @ [''-cp'', ''.minecraft/versions/1.20.1/1.20.1.jar'',
               ''net.minecraft.client.main.Main'', ''--username'', ''Alice''])"
  by (simp add: build_java_command_def memory_truthy_def common_args_def)

text \<open>
  C9: with the empty string for the game arguments, \<open>''.split(' ')\<close> is the list of one
  empty string, and the command does not stop at the entry-point class: its last token
  is the empty string, and the token before it is the class name.
\<close>

theorem build_java_command_empty_game_args:
  assumes "opt_java_path opts = Some java_path"
  shows "py_split CHR '' '' [] = [[]]
       \<and> (\<exists>front. build_java_command env mc_path version_name main_class libraries [] opts
                     = Inr (front @ [main_class, []])
                   \<and> last (front @ [main_class, []]) = []
                   \<and> last (butlast (front @ [main_class, []])) = main_class
                   \<and> length (front @ [main_class, []]) = Suc (length (front @ [main_class])))"
proof -
  obtain front0 where "build_java_command env mc_path version_name main_class libraries [] opts
      = Inr ((front0 @ [''-cp'', libraries]) @ [main_class, []])"
    using assms by (simp add: build_java_command_def Let_def)
  then show ?thesis
    by (intro conjI exI [of _ "front0 @ [''-cp'', libraries]"])
       (simp_all add: butlast_append)
qed

theorem build_java_command_empty_game_args_witness:
  "build_java_command (posix_platform ''AMD64'' []) (posix_parse ''.minecraft'') ''1.20.1''
     ''net.minecraft.client.main.Main'' ''.minecraft/versions/1.20.1/1.20.1.jar'' []
     \<lparr>opt_java_path = Some ''java'', opt_memory = Some (MemInt 4096),
      opt_use_system_memory = Some False\<rparr>
   = Inr (''java'' # ''-Xmx4096M'' # ''-Xms4096M''
            # common_args (posix_platform ''AMD64'' []) (posix_parse ''.minecraft'') ''1.20.1''
            @ [''-cp'', ''.minecraft/versions/1.20.1/1.20.1.jar'',
               ''net.minecraft.client.main.Main'', []])"
proof -
  let ?opts = "\<lparr>opt_java_path = Some ''java'', opt_memory = Some (MemInt 4096),
                 opt_use_system_memory = Some False\<rparr>"
  have "\<exists>front. build_java_command (posix_platform ''AMD64'' []) (posix_parse ''.minecraft'')
            ''1.20.1'' ''net.minecraft.client.main.Main''
            ''.minecraft/versions/1.20.1/1.20.1.jar'' [] ?opts
          = Inr (front @ [''net.minecraft.client.main.Main'', []])"
    using build_java_command_empty_game_args [where opts = ?opts and java_path = "''java''"
        and env = "posix_platform ''AMD64'' []" and mc_path = "posix_parse ''.minecraft''"
        and version_name = "''1.20.1''" and main_class = "''net.minecraft.client.main.Main''"
        and libraries = "''.minecraft/versions/1.20.1/1.20.1.jar''"]
    by auto
  then show ?thesis
    by (simp add: build_java_command_def memory_truthy_def memory_text_def py_str_int_4096)
qed

text \<open>
  C10: an options dict without the key \<open>memory\<close>, with \<open>use_system_memory\<close> false or
  missing, gives the command of the same dict with \<open>memory\<close> set to 4096: the
  interpreter path is followed by \<open>-Xmx4096M\<close> and then \<open>-Xms4096M\<close>.
\<close>

theorem build_java_command_default_memory:
  assumes "opt_java_path opts = Some java_path"
    and "opt_memory opts = None"
    and "opt_use_system_memory opts = None \<or> opt_use_system_memory opts = Some False"
  shows "build_java_command env mc_path version_name main_class libraries game_args opts
           = build_java_command env mc_path version_name main_class libraries game_args
               (opts\<lparr>opt_memory := Some (MemInt 4096)\<rparr>)
       \<and> build_java_command env mc_path version_name main_class libraries game_args opts
           = Inr (java_path # ''-Xmx4096M'' # ''-Xms4096M''
                    # common_args env mc_path version_name
                    @ [''-cp'', libraries, main_class] @ py_split CHR '' '' game_args)"
proof -
  have sys: "opt_use_system_memory opts \<noteq> Some True"
    using assms(3) by auto
  have "build_java_command env mc_path version_name main_class libraries game_args opts
      = Inr (java_path # ''-Xmx4096M'' # ''-Xms4096M''
               # common_args env mc_path version_name
               @ [''-cp'', libraries, main_class] @ py_split CHR '' '' game_args)"
    using build_java_command_memory [OF assms(1) sys, of 4096] assms(2)
    by (simp add: py_str_int_4096)
  moreover have "build_java_command env mc_path version_name main_class libraries game_args
        (opts\<lparr>opt_memory := Some (MemInt 4096)\<rparr>)
      = Inr (java_path # ''-Xmx4096M'' # ''-Xms4096M''
               # common_args env mc_path version_name
               @ [''-cp'', libraries, main_class] @ py_split CHR '' '' game_args)"
    using build_java_command_memory [of "opts\<lparr>opt_memory := Some (MemInt 4096)\<rparr>" java_path 4096]
      assms(1) sys
    by (simp add: py_str_int_4096)
  ultimately show ?thesis by simp
qed

theorem build_java_command_default_memory_witness:
  "build_java_command (posix_platform ''AMD64'' []) (posix_parse ''.minecraft'') ''1.20.1''
     ''net.minecraft.client.main.Main'' ''.minecraft/versions/1.20.1/1.20.1.jar''
     ''--username Alice''
     \<lparr>opt_java_path = Some ''java'', opt_memory = None, opt_use_system_memory = None\<rparr>
   = Inr (''java'' # ''-Xmx4096M'' # ''-Xms4096M''
            # common_args (posix_platform ''AMD64'' []) (posix_parse ''.minecraft'') ''1.20.1''
            @ [''-cp'', ''.minecraft/versions/1.20.1/1.20.1.jar'',
               ''net.minecraft.client.main.Main'', ''--username'', ''Alice''])
   \<and> build_java_command (posix_platform ''AMD64'' []) (posix_parse ''.minecraft'') ''1.20.1''
     ''net.minecraft.client.main.Main'' ''.minecraft/versions/1.20.1/1.20.1.jar''
     ''--username Alice''
     \<lparr>opt_java_path = Some ''java'', opt_memory = None, opt_use_system_memory = Some False\<rparr>
   = Inr (''java'' # ''-Xmx4096M'' # ''-Xms4096M''
            # common_args (posix_platform ''AMD64'' []) (posix_parse ''.minecraft'') ''1.20.1''
            @ [''-cp'', ''.minecraft/versions/1.20.1/1.20.1.jar'',
               ''net.minecraft.client.main.Main'', ''--username'', ''Alice''])"
proof -
  let ?env = "posix_platform ''AMD64'' []"
  let ?mc = "posix_parse ''.minecraft''"
  have absent: "build_java_command ?env ?mc ''1.20.1'' ''net.minecraft.client.main.Main''
      ''.minecraft/versions/1.20.1/1.20.1.jar'' ''--username Alice''
      \<lparr>opt_java_path = Some ''java'', opt_memory = None, opt_use_system_memory = None\<rparr>
    = Inr (''java'' # ''-Xmx4096M'' # ''-Xms4096M'' # common_args ?env ?mc ''1.20.1''
             @ [''-cp'', ''.minecraft/versions/1.20.1/1.20.1.jar'',
                ''net.minecraft.client.main.Main''] @ py_split CHR '' '' ''--username Alice'')"
    by (rule build_java_command_default_memory [THEN conjunct2]) simp_all
  have off: "build_java_command ?env ?mc ''1.20.1'' ''net.minecraft.client.main.Main''
      ''.minecraft/versions/1.20.1/1.20.1.jar'' ''--username Alice''
      \<lparr>opt_java_path = Some ''java'', opt_memory = None,
       opt_use_system_memory = Some False\<rparr>
    = Inr (''java'' # ''-Xmx4096M'' # ''-Xms4096M'' # common_args ?env ?mc ''1.20.1''
             @ [''-cp'', ''.minecraft/versions/1.20.1/1.20.1.jar'',
                ''net.minecraft.client.main.Main''] @ py_split CHR '' '' ''--username Alice'')"
    by (rule build_java_command_default_memory [THEN conjunct2]) simp_all
  show ?thesis
    unfolding absent off by simp
qed

section \<open>Properties of the launch orchestrator\<close>

lemma posix_root_rooted: "posix_root s \<noteq> [] \<longleftrightarrow> prefix ''/'' s"
  by (auto simp: posix_root_def split: list.splits)

lemma posix_root_hd: "posix_root s \<noteq> [] \<Longrightarrow> hd (posix_root s) = CHR ''/''"
  by (auto simp: posix_root_def split: list.splits if_splits)

lemma py_split_no_separator: "w \<in> set (py_split d s) \<Longrightarrow> d \<notin> set w"
proof (induction s arbitrary: w)
  case Nil
  then show ?case by simp
next
  case (Cons c cs)
  show ?case
  proof (cases "py_split d cs")
    case Nil
    with Cons.prems show ?thesis by (auto split: if_splits)
  next
    case (Cons v vs)
    have v: "d \<notin> set v" and vs: "\<And>u. u \<in> set vs \<Longrightarrow> d \<notin> set u"
      using Cons.IH Cons by simp_all
    show ?thesis
      using Cons.prems Cons v vs Cons.IH by (auto split: if_splits)
  qed
qed

lemma py_join_hd:
  "xs \<noteq> [] \<Longrightarrow> hd xs \<noteq> [] \<Longrightarrow> py_join sep xs \<noteq> [] \<and> hd (py_join sep xs) = hd (hd xs)"
  by (cases xs; cases "tl xs") auto

lemma posix_str_relative:
  assumes "posix_root s = []"
  shows "posix_str (posix_parse s) \<noteq> [] \<and> hd (posix_str (posix_parse s)) \<noteq> CHR ''/''"
proof (cases "pp_tail (posix_parse s)")
  case Nil
  with assms show ?thesis by (simp add: posix_str_def posix_parse_def)
next
  case (Cons w ws)
  then have "w \<in> set (filter (\<lambda>x. x \<noteq> [] \<and> x \<noteq> ''.'') (py_split CHR ''/'' s))"
    by (simp add: posix_parse_def)
  then have w: "w \<noteq> []" "CHR ''/'' \<notin> set w"
    using py_split_no_separator [of w "CHR ''/''" s] by auto
  then have "hd w \<noteq> CHR ''/''" by (cases w) auto
  moreover have "py_join ''/'' (w # ws) \<noteq> [] \<and> hd (py_join ''/'' (w # ws)) = hd w"
    using py_join_hd [of "w # ws" "''/''"] w(1) by simp
  ultimately show ?thesis
    using assms Cons by (simp add: posix_str_def posix_parse_def)
qed

lemma posix_str_rooted:
  assumes "posix_root s \<noteq> []"
  shows "posix_str (posix_parse s) \<noteq> [] \<and> hd (posix_str (posix_parse s)) = CHR ''/''"
  using assms posix_root_hd [OF assms] by (simp add: posix_str_def posix_parse_def)

lemma posix_normalize_is_absolute:
  "posix_is_absolute (normalize_mc_path (posix_platform machine files) mc_path)
     \<longleftrightarrow> prefix ''/'' mc_path"
proof -
  let ?p = "posix_parse mc_path"
  have parsed: "posix_is_absolute ?p \<longleftrightarrow> prefix ''/'' mc_path"
    by (simp add: posix_is_absolute_def posix_parse_def posix_root_rooted)
  have again: "posix_is_absolute (posix_parse (posix_str ?p @ ''/'')) \<longleftrightarrow> prefix ''/'' mc_path"
  proof (cases "posix_root mc_path = []")
    case True
    then obtain c cs where "posix_str ?p = c # cs" and "c \<noteq> CHR ''/''"
      using posix_str_relative [OF True] by (cases "posix_str ?p") auto
    then show ?thesis
      using True posix_root_rooted [of mc_path]
      by (simp add: posix_is_absolute_def posix_parse_def posix_root_rooted)
  next
    case False
    then obtain cs where "posix_str ?p = CHR ''/'' # cs"
      using posix_str_rooted [OF False] by (cases "posix_str ?p") auto
    then show ?thesis
      using False posix_root_rooted [of mc_path]
      by (simp add: posix_is_absolute_def posix_parse_def posix_root_rooted)
  qed
  show ?thesis
    using parsed again by (simp add: normalize_mc_path_def posix_platform_def Let_def)
qed

text \<open>
  C8, as the code has it: the launcher wraps the root in \<open>pathlib.Path\<close> and makes
  nothing absolute: on the POSIX pathlib the normalized root is absolute exactly when
  the given string starts with a slash. Every path the launcher derives starts from
  this normalized root: the descriptor it loads is \<open>root/versions/v/v.json\<close>, and the
  classpath, the game arguments and the command are built with the same root.
\<close>

theorem launch_minecraft_normalized_root:
  "(posix_is_absolute (normalize_mc_path (posix_platform machine files) mc_path0)
      \<longleftrightarrow> prefix ''/'' mc_path0)
   \<and> launch_minecraft env load mc_path version_name player_name opts
       = (case load (truediv env (truediv env (truediv env (normalize_mc_path env mc_path)
                       ''versions'') version_name) (version_name @ ''.json'')) of
            Inl e \<Rightarrow> Inl e
          | Inr version_json \<Rightarrow>
              (case vj_mainClass version_json of
                 None \<Rightarrow> Inl (KeyError ''mainClass'')
               | Some main_class \<Rightarrow>
                   (case build_libraries_path env (normalize_mc_path env mc_path)
                           version_json of
                      Inl e \<Rightarrow> Inl e
                    | Inr libraries \<Rightarrow>
                        build_java_command env (normalize_mc_path env mc_path) version_name
                          main_class libraries
                          (build_game_arguments env (normalize_mc_path env mc_path)
                             version_name player_name version_json)
                          opts)))"
  using posix_normalize_is_absolute [of machine files mc_path0]
  by (simp add: launch_minecraft_def Let_def split: sum.splits option.splits)

theorem launch_minecraft_normalized_root_witness:
  "posix_is_absolute (normalize_mc_path (posix_platform ''AMD64'' []) ''/home/u/.minecraft/'')
   \<and> posix_str (normalize_mc_path (posix_platform ''AMD64'' []) ''/home/u/.minecraft/'')
       = ''/home/u/.minecraft''"
proof -
  have "prefix ''/'' ''/home/u/.minecraft/''" by simp
  then have "posix_is_absolute
      (normalize_mc_path (posix_platform ''AMD64'' []) ''/home/u/.minecraft/'')"
    using launch_minecraft_normalized_root [where machine = "''AMD64''" and files = "[]"
        and mc_path0 = "''/home/u/.minecraft/''"]
    by blast
  moreover have "posix_str (normalize_mc_path (posix_platform ''AMD64'' [])
      ''/home/u/.minecraft/'') = ''/home/u/.minecraft''"
    by (simp add: normalize_mc_path_def posix_platform_def posix_parse_def posix_str_def
        posix_root_def py_endswith_def Let_def)
  ultimately show ?thesis by (rule conjI)
qed

text \<open>
  C8, as the specification states it, fails: for the root \<open>.minecraft\<close> of the
  script's own entry point the normalized root prints as \<open>.minecraft\<close>, which is
  neither absolute nor ends with the separator.
\<close>

theorem launch_minecraft_normalize_counterexample:
  "posix_str (normalize_mc_path (posix_platform ''AMD64'' []) ''.minecraft'') = ''.minecraft''
   \<and> \<not> posix_is_absolute (normalize_mc_path (posix_platform ''AMD64'' []) ''.minecraft'')
   \<and> \<not> py_endswith (posix_str (normalize_mc_path (posix_platform ''AMD64'' []) ''.minecraft''))
          (os_sep (posix_platform ''AMD64'' []))"
  by (simp add: normalize_mc_path_def posix_platform_def posix_parse_def posix_str_def
      posix_root_def posix_is_absolute_def py_endswith_def Let_def)

end
